theory Spec2Isabelle
  imports Main "HOL-Library.AList"
begin

section \<open>JavaScript values and objects\<close>

text \<open>
  The values that flow through \<^verbatim>\<open>createAPIRequestAsync\<close> (src/apirequest.ts).
  \<^item> \<open>Obj\<close> is a plain object: its own enumerable properties in insertion order.
  \<^item> \<open>Derived\<close> is an object made as a plain object whose prototype has since been
    replaced, by the \<^verbatim>\<open>__proto__\<close> setter, with null or with another object: its own
    properties and that prototype. The params of a call become one at line 132 when a
    key \<^verbatim>\<open>__proto___\<close> is un-aliased.
  \<^item> \<open>Arr\<close> is an array.
  \<^item> \<open>Readable\<close> is a \<^verbatim>\<open>stream.Readable\<close> with the chunks it will deliver.
  \<^item> \<open>Host\<close> is any other object that is not a plain object (an auth client, a Buffer,
    an instance of a class).
  \<^item> \<open>Func\<close> is a function value, named.
  Numbers are integers here; NaN and fractions do not occur in what is modelled.
  An object is the list of its own properties in insertion order; where the order of
  enumeration shows (the text \<^verbatim>\<open>JSON.stringify\<close> writes), the keys that are array
  indices come first (\<open>property_order\<close> below). The members inherited from
  \<^verbatim>\<open>Object.prototype\<close> enter where the function reads a name of the caller's choice
  (\<open>js_read\<close> below). An own property named \<^verbatim>\<open>__proto__\<close>, which only a computed key,
  \<^verbatim>\<open>JSON.parse\<close> or \<^verbatim>\<open>defineProperty\<close> create, is outside the model.
\<close>

datatype jsval =
    Undefined
  | Null
  | Bool bool
  | Num int
  | Str string
  | Arr "jsval list"
  | Obj "(string \<times> jsval) list"
  | Derived "(string \<times> jsval) list" jsval
  | Readable "string list"
  | Host nat
  | Func string

type_synonym jsobj = "(string \<times> jsval) list"

text \<open>JavaScript truthiness: what \<^verbatim>\<open>if (v)\<close>, \<^verbatim>\<open>v ? a : b\<close> and \<^verbatim>\<open>v || w\<close> test.\<close>

fun truthy :: "jsval \<Rightarrow> bool" where
  "truthy Undefined = False"
| "truthy Null = False"
| "truthy (Bool b) = b"
| "truthy (Num n) = (n \<noteq> 0)"
| "truthy (Str s) = (s \<noteq> [])"
| "truthy (Arr xs) = True"
| "truthy (Obj kvs) = True"
| "truthy (Derived own pr) = True"
| "truthy (Readable cs) = True"
| "truthy (Host h) = True"
| "truthy (Func f) = True"

text \<open>\<^verbatim>\<open>a || b\<close>\<close>

definition js_or :: "jsval \<Rightarrow> jsval \<Rightarrow> jsval" where
  "js_or a b = (if truthy a then a else b)"

text \<open>\<^verbatim>\<open>typeof v === 'string'\<close> and \<^verbatim>\<open>typeof v === 'object'\<close>
  (\<^verbatim>\<open>typeof null\<close> is \<^verbatim>\<open>'object'\<close> too).\<close>

fun is_string :: "jsval \<Rightarrow> bool" where
  "is_string (Str s) = True"
| "is_string v = False"

fun typeof_object :: "jsval \<Rightarrow> bool" where
  "typeof_object Null = True"
| "typeof_object (Arr xs) = True"
| "typeof_object (Obj kvs) = True"
| "typeof_object (Derived own pr) = True"
| "typeof_object (Readable cs) = True"
| "typeof_object (Host h) = True"
| "typeof_object v = False"

text \<open>\<^verbatim>\<open>o.k\<close> for an own property, or for a fixed name that \<^verbatim>\<open>Object.prototype\<close> does
  not have: a missing key reads as undefined.\<close>

definition js_get :: "jsobj \<Rightarrow> string \<Rightarrow> jsval" where
  "js_get ob k = (case map_of ob k of None \<Rightarrow> Undefined | Some v \<Rightarrow> v)"

text \<open>\<^verbatim>\<open>o[k] = v\<close>: an existing key keeps its place, a new key goes last.\<close>

definition js_set :: "string \<Rightarrow> jsval \<Rightarrow> jsobj \<Rightarrow> jsobj" where
  "js_set k v ob = AList.update k v ob"

text \<open>\<^verbatim>\<open>delete o[k]\<close>\<close>

definition js_delete :: "string \<Rightarrow> jsobj \<Rightarrow> jsobj" where
  "js_delete k ob = AList.delete k ob"

text \<open>\<^verbatim>\<open>o.hasOwnProperty(k)\<close>\<close>

definition has_key :: "jsobj \<Rightarrow> string \<Rightarrow> bool" where
  "has_key ob k = (map_of ob k \<noteq> None)"

text \<open>\<^verbatim>\<open>Object.keys(o)\<close>. The loop of lines 129-135 acts on the keys that end in
  \<^verbatim>\<open>_\<close>; these are never array indices, so they come in insertion order.\<close>

definition object_keys :: "jsobj \<Rightarrow> string list" where
  "object_keys ob = map fst ob"

text \<open>\<^verbatim>\<open>v.k\<close> on a value that is not undefined or null, for the fixed names read in the
  function (\<^verbatim>\<open>body\<close>, \<^verbatim>\<open>mimeType\<close>, \<^verbatim>\<open>product\<close>, \<^verbatim>\<open>prototype\<close>, ...): an own property,
  else the one inherited through a replaced prototype. Only such objects have these
  properties.\<close>

fun get_prop :: "jsval \<Rightarrow> string \<Rightarrow> jsval" where
  "get_prop (Obj kvs) k = js_get kvs k"
| "get_prop (Derived own pr) k = (case map_of own k of Some v \<Rightarrow> v | None \<Rightarrow> get_prop pr k)"
| "get_prop v k = Undefined"

text \<open>What the \<^verbatim>\<open>__proto__\<close> setter accepts as a prototype: an object or null. Any other
  value is ignored.\<close>

fun is_object_or_null :: "jsval \<Rightarrow> bool" where
  "is_object_or_null Undefined = False"
| "is_object_or_null (Bool b) = False"
| "is_object_or_null (Num n) = False"
| "is_object_or_null (Str s) = False"
| "is_object_or_null v = True"

text \<open>The own enumerable properties \<^verbatim>\<open>Object.assign\<close> and \<^verbatim>\<open>for (name in v)\<close>
  see in a value: those of a plain object, none of undefined, null, a number or a boolean.
  (The types \<^verbatim>\<open>SchemaParameters\<close>, \<^verbatim>\<open>GlobalOptions\<close> and \<^verbatim>\<open>Headers\<close> make every such
  value a plain object or undefined; an array, a string or a host object in its place is
  not modelled and contributes nothing here.)\<close>

fun own_entries :: "jsval \<Rightarrow> (string \<times> jsval) list" where
  "own_entries (Obj kvs) = kvs"
| "own_entries (Derived own pr) = own"
| "own_entries v = []"

text \<open>The properties \<^verbatim>\<open>for (name in v)\<close> visits, each with the value \<^verbatim>\<open>v[name]\<close>: the own
  ones, then the inherited enumerable ones that no own property hides.\<close>

fun enumerable_entries :: "jsval \<Rightarrow> (string \<times> jsval) list" where
  "enumerable_entries (Obj kvs) = kvs"
| "enumerable_entries (Derived own pr) =
     own @ filter (\<lambda>kv. map_of own (fst kv) = None) (enumerable_entries pr)"
| "enumerable_entries v = []"

text \<open>An object as the caller builds it has each key once.\<close>

definition wf_obj :: "jsobj \<Rightarrow> bool" where
  "wf_obj ob = distinct (map fst ob)"

text \<open>\<^verbatim>\<open>Object.assign(target, source)\<close>: each property of the source, in order, is
  assigned on the target.\<close>

definition assign1 :: "jsobj \<Rightarrow> (string \<times> jsval) list \<Rightarrow> jsobj" where
  "assign1 target src = foldl (\<lambda>t (k, v). js_set k v t) target src"

text \<open>\<^verbatim>\<open>Object.assign(target, s1, s2, ...)\<close>\<close>

definition object_assign :: "jsobj \<Rightarrow> jsval list \<Rightarrow> jsobj" where
  "object_assign target srcs = foldl (\<lambda>t s. assign1 t (own_entries s)) target srcs"

section \<open>The request descriptor\<close>

text \<open>
  \<^verbatim>\<open>APIRequestContext\<close>: \<open>google\<close> is \<^verbatim>\<open>context.google._options\<close> when
  \<^verbatim>\<open>context.google\<close> is set (the type \<^verbatim>\<open>GoogleConfigurable\<close> gives it an
  \<^verbatim>\<open>_options\<close> object), \<open>ctx_options\<close> is \<^verbatim>\<open>context._options\<close>.
\<close>

record APIRequestContext =
  google :: "jsobj option"
  ctx_options :: jsobj

text \<open>\<^verbatim>\<open>APIRequestParams\<close>, the argument of \<^verbatim>\<open>createAPIRequest\<close>; \<open>ctx\<close> is its
  \<^verbatim>\<open>context\<close> field.\<close>

record APIRequestParams =
  options :: jsobj
  params :: jsobj
  requiredParams :: "string list"
  pathParams :: "string list"
  ctx :: APIRequestContext
  mediaUrl :: jsval

section \<open>Parameter resolution\<close>

text \<open>Lines 77-82: the global params, or an empty object.\<close>

definition topOptions :: "APIRequestParams \<Rightarrow> jsval" where
  "topOptions parameters =
     (case google (ctx parameters) of
        None \<Rightarrow> Obj []
      | Some gopts \<Rightarrow>
          if truthy (js_get gopts ''params'') then js_get gopts ''params'' else Obj [])"

text \<open>Lines 83-88: a new object receiving the global, the per-client and the per-call
  params, in this order.\<close>

definition merged_params :: "APIRequestParams \<Rightarrow> jsobj" where
  "merged_params parameters =
     object_assign []
       [topOptions parameters,
        js_get (ctx_options (ctx parameters)) ''params'',
        Obj (params parameters)]"

text \<open>Lines 106-110: the request body, and the params without the body fields.
  \<^verbatim>\<open>resource\<close> is deleted only when it served as the body.\<close>

definition resolve_resource :: "jsobj \<Rightarrow> jsval" where
  "resolve_resource ps =
     (if truthy (js_get ps ''requestBody'') then js_get ps ''requestBody''
      else js_get ps ''resource'')"

definition strip_body :: "jsobj \<Rightarrow> jsobj" where
  "strip_body ps =
     js_delete ''requestBody''
       (if \<not> truthy (js_get ps ''requestBody'') \<and> truthy (js_get ps ''resource'')
        then js_delete ''resource'' ps else ps)"

text \<open>
  Lines 129-135: one round of the un-aliasing loop, for one key of the snapshot
  \<^verbatim>\<open>Object.keys(params)\<close>; \<^verbatim>\<open>key.slice(-1)\<close> is the last character (empty for the
  empty key) and \<^verbatim>\<open>key.slice(0, -1)\<close> all but the last. The state is the own properties
  of the params and their prototype, \<open>None\<close> for \<^verbatim>\<open>Object.prototype\<close>. Assigning
  \<^verbatim>\<open>params['__proto__']\<close> (the key \<^verbatim>\<open>__proto___\<close>) runs the setter of
  \<^verbatim>\<open>Object.prototype\<close>: an object or null becomes the prototype, any other value is
  ignored, and no own property is added.
\<close>

definition unalias_key :: "jsobj \<times> jsval option \<Rightarrow> string \<Rightarrow> jsobj \<times> jsval option" where
  "unalias_key st key =
     (let ps = fst st; pr = snd st in
      if key \<noteq> [] \<and> last key = CHR ''_''
      then (if butlast key = ''__proto__'' \<and> \<not> has_key ps ''__proto__''
            then (js_delete key ps,
                  if is_object_or_null (js_get ps key) then Some (js_get ps key) else pr)
            else (js_delete key (js_set (butlast key) (js_get ps key) ps), pr))
      else st)"

definition unalias_loop :: "jsobj \<Rightarrow> jsobj \<times> jsval option" where
  "unalias_loop ps = foldl unalias_key (ps, None) (object_keys ps)"

text \<open>The own properties of the params after the loop, and their prototype.\<close>

definition unalias :: "jsobj \<Rightarrow> jsobj" where
  "unalias ps = fst (unalias_loop ps)"

definition unalias_proto :: "jsobj \<Rightarrow> jsval option" where
  "unalias_proto ps = snd (unalias_loop ps)"

text \<open>The object with these own properties and this prototype.\<close>

definition mk_object :: "jsobj \<Rightarrow> jsval option \<Rightarrow> jsval" where
  "mk_object own pr = (case pr of None \<Rightarrow> Obj own | Some v \<Rightarrow> Derived own v)"

text \<open>
  The params object is made by \<^verbatim>\<open>Object.assign({}, ...)\<close>, so reading a name it does not
  have as its own property finds the members of \<^verbatim>\<open>Object.prototype\<close>, or what the
  replaced prototype has.
\<close>

definition object_prototype_names :: "string list" where
  "object_prototype_names =
     [''constructor'', ''__defineGetter__'', ''__defineSetter__'', ''hasOwnProperty'',
      ''__lookupGetter__'', ''__lookupSetter__'', ''isPrototypeOf'', ''propertyIsEnumerable'',
      ''toString'', ''valueOf'', ''__proto__'', ''toLocaleString'']"

text \<open>
  \<^verbatim>\<open>v[name]\<close> for an arbitrary name: the own property, else what the prototype chain
  gives. A member of \<^verbatim>\<open>Object.prototype\<close> is written as a function value (only its not
  being undefined matters); a null prototype ends the chain; \<open>hg\<close> supplies the
  properties of an array, a stream, a function or a host object.
\<close>

fun js_read :: "(jsval \<Rightarrow> string \<Rightarrow> jsval) \<Rightarrow> jsval \<Rightarrow> string \<Rightarrow> jsval" where
  "js_read hg (Obj kvs) name =
     (case map_of kvs name of
        Some v \<Rightarrow> v
      | None \<Rightarrow> if name \<in> set object_prototype_names then Func name else Undefined)"
| "js_read hg (Derived own pr) name =
     (case map_of own name of Some v \<Rightarrow> v | None \<Rightarrow> js_read hg pr name)"
| "js_read hg Null name = Undefined"
| "js_read hg v name = hg v name"

text \<open>Lines 33-45: \<^verbatim>\<open>getMissingParams\<close> on the params object; \<open>None\<close> is the \<^verbatim>\<open>null\<close> it
  returns when nothing is missing.\<close>

definition getMissingParams ::
  "(jsval \<Rightarrow> string \<Rightarrow> jsval) \<Rightarrow> jsval \<Rightarrow> string list \<Rightarrow> string list option" where
  "getMissingParams hg ps required =
     (let missing = filter (\<lambda>param. js_read hg ps param = Undefined) required
      in if length missing > 0 then Some missing else None)"

section \<open>Text of values\<close>

text \<open>Decimal digits of a natural number and of an integer.\<close>

fun show_nat :: "nat \<Rightarrow> string" where
  "show_nat n =
     (if n < 10 then [char_of (48 + n)]
      else show_nat (n div 10) @ [char_of (48 + n mod 10)])"

declare show_nat.simps [simp del]

definition show_int :: "int \<Rightarrow> string" where
  "show_int i = (if i < 0 then CHR ''-'' # show_nat (nat (- i)) else show_nat (nat i))"

text \<open>\<^verbatim>\<open>String(n)\<close> of an integer writes all its digits below \<^verbatim>\<open>1e21\<close> in absolute value,
  and the exponent form from there on.\<close>

definition plain_digits :: "int \<Rightarrow> bool" where
  "plain_digits n = (\<bar>n\<bar> < 10 ^ 21)"

text \<open>\<^verbatim>\<open>xs.join(sep)\<close> on strings.\<close>

fun join :: "string \<Rightarrow> string list \<Rightarrow> string" where
  "join sep [] = []"
| "join sep [x] = x"
| "join sep (x # y # ys) = x @ sep @ join sep (y # ys)"

text \<open>
  The order in which the own properties of an object are enumerated: the keys that are
  array indices (canonical decimal, at most \<^verbatim>\<open>2^32 - 2\<close>) in ascending order, then the
  other keys in insertion order.
\<close>

definition is_digit :: "char \<Rightarrow> bool" where
  "is_digit c = (48 \<le> (of_char c :: nat) \<and> (of_char c :: nat) \<le> 57)"

definition index_value :: "string \<Rightarrow> int" where
  "index_value k = foldl (\<lambda>n c. 10 * n + (of_char c - 48)) 0 k"

definition is_array_index :: "string \<Rightarrow> bool" where
  "is_array_index k =
     (k \<noteq> [] \<and> list_all is_digit k \<and> (k = ''0'' \<or> hd k \<noteq> CHR ''0'')
      \<and> index_value k \<le> 4294967294)"

definition property_order :: "(string \<times> 'a) list \<Rightarrow> (string \<times> 'a) list" where
  "property_order kvs =
     sort_key (\<lambda>kv. index_value (fst kv)) (filter (\<lambda>kv. is_array_index (fst kv)) kvs)
     @ filter (\<lambda>kv. \<not> is_array_index (fst kv)) kvs"

text \<open>
  \<^verbatim>\<open>JSON.stringify(v)\<close>; \<open>None\<close> is the \<^verbatim>\<open>undefined\<close> it returns for undefined and for
  a function. An undefined array element is written \<^verbatim>\<open>null\<close>, an undefined property is
  left out, and the properties come in the order of enumeration. Control characters, the
  quote and the backslash are escaped. \<open>hj\<close> supplies what depends on more than the
  value: the text of a host object or a stream, of an object with a \<^verbatim>\<open>toJSON\<close> method,
  and the exponent form of a number from \<^verbatim>\<open>1e21\<close> on.
\<close>

definition hex_digit :: "nat \<Rightarrow> char" where
  "hex_digit n = ''0123456789abcdef'' ! (n mod 16)"

definition json_escape_char :: "char \<Rightarrow> string" where
  "json_escape_char c =
     (let n = (of_char c :: nat) in
      if n = 0x22 then [CHR 0x5C, CHR 0x22]
      else if n = 0x5C then [CHR 0x5C, CHR 0x5C]
      else if n = 8 then [CHR 0x5C, CHR ''b'']
      else if n = 12 then [CHR 0x5C, CHR ''f'']
      else if n = 10 then [CHR 0x5C, CHR ''n'']
      else if n = 13 then [CHR 0x5C, CHR ''r'']
      else if n = 9 then [CHR 0x5C, CHR ''t'']
      else if n < 32
        then [CHR 0x5C, CHR ''u'', CHR ''0'', CHR ''0'', hex_digit (n div 16), hex_digit n]
      else [c])"

definition json_quote :: "string \<Rightarrow> string" where
  "json_quote s = CHR 0x22 # concat (map json_escape_char s) @ [CHR 0x22]"

text \<open>The text of an object from its properties, each with the text of its value.\<close>

definition json_object :: "(string \<times> string option) list \<Rightarrow> string" where
  "json_object members =
     ''{'' @ join '',''
        (concat (map (\<lambda>kt. case snd kt of
                               None \<Rightarrow> []
                             | Some t \<Rightarrow> [json_quote (fst kt) @ '':'' @ t])
                   (property_order members))) @ ''}''"

fun is_function :: "jsval \<Rightarrow> bool" where
  "is_function (Func f) = True"
| "is_function v = False"

fun json_stringify :: "(jsval \<Rightarrow> string option) \<Rightarrow> jsval \<Rightarrow> string option" where
  "json_stringify hj Undefined = None"
| "json_stringify hj (Func f) = None"
| "json_stringify hj Null = Some ''null''"
| "json_stringify hj (Bool b) = Some (if b then ''true'' else ''false'')"
| "json_stringify hj (Num n) = (if plain_digits n then Some (show_int n) else hj (Num n))"
| "json_stringify hj (Str s) = Some (json_quote s)"
| "json_stringify hj (Arr xs) =
     Some (''['' @ join '',''
        (map (\<lambda>x. case json_stringify hj x of None \<Rightarrow> ''null'' | Some t \<Rightarrow> t) xs) @ '']'')"
| "json_stringify hj (Obj kvs) =
     (if is_function (js_get kvs ''toJSON'') then hj (Obj kvs)
      else Some (json_object (map (\<lambda>kv. (fst kv, json_stringify hj (snd kv))) kvs)))"
| "json_stringify hj (Derived own pr) =
     (if is_function (get_prop (Derived own pr) ''toJSON'') then hj (Derived own pr)
      else Some (json_object (map (\<lambda>kv. (fst kv, json_stringify hj (snd kv))) own)))"
| "json_stringify hj (Readable cs) = hj (Readable cs)"
| "json_stringify hj (Host h) = hj (Host h)"

text \<open>
  \<^verbatim>\<open>String(v)\<close>, as a template literal \<^verbatim>\<open>`${v}`\<close> applies it. A plain object with no
  \<^verbatim>\<open>toString\<close> or \<^verbatim>\<open>valueOf\<close> of its own is \<^verbatim>\<open>[object Object]\<close>; an array joins its
  elements with a comma, null and undefined elements being empty; \<open>hs\<close> supplies the
  text of a host object, a stream, a function, an object with a replaced prototype or
  with a \<^verbatim>\<open>toString\<close> or \<^verbatim>\<open>valueOf\<close> of its own, and the exponent form of a number from
  \<^verbatim>\<open>1e21\<close> on.
\<close>

fun to_string :: "(jsval \<Rightarrow> string) \<Rightarrow> jsval \<Rightarrow> string" where
  "to_string hs Undefined = ''undefined''"
| "to_string hs Null = ''null''"
| "to_string hs (Bool b) = (if b then ''true'' else ''false'')"
| "to_string hs (Num n) = (if plain_digits n then show_int n else hs (Num n))"
| "to_string hs (Str s) = s"
| "to_string hs (Arr xs) =
     join '','' (map (\<lambda>x. if x = Undefined \<or> x = Null then [] else to_string hs x) xs)"
| "to_string hs (Obj kvs) =
     (if has_key kvs ''toString'' \<or> has_key kvs ''valueOf'' then hs (Obj kvs)
      else ''[object Object]'')"
| "to_string hs (Derived own pr) = hs (Derived own pr)"
| "to_string hs (Readable cs) = hs (Readable cs)"
| "to_string hs (Host h) = hs (Host h)"
| "to_string hs (Func f) = hs (Func f)"

section \<open>Errors and collaborators\<close>

text \<open>
  What the function throws, or what the promise it returns rejects with: the
  \<^verbatim>\<open>Error\<close> of line 142 with its message, a \<^verbatim>\<open>TypeError\<close> of the runtime (a method
  called on a value that does not have it), or the value the executor rejected with.
\<close>

datatype js_error = Error string | TypeError string | Rejection jsval

text \<open>The fate of a promise: fulfilled with a value, rejected with a reason, or never
  settled.\<close>

datatype outcome = Fulfilled jsval | Rejected js_error | Pending

text \<open>Who performs the request (lines 289-293): the auth client, or a new
  \<^verbatim>\<open>DefaultTransporter\<close>.\<close>

datatype executor = AuthClient jsval | DefaultTransporter

text \<open>
  What the module imports and does not define:
  \<^item> \<open>isBrowser\<close>: \<^verbatim>\<open>isBrowser()\<close> of \<^verbatim>\<open>./isbrowser\<close>;
  \<^item> \<open>pkg_version\<close>: \<^verbatim>\<open>pkg.version\<close> of \<^verbatim>\<open>package.json\<close>;
  \<^item> \<open>uuid_v4\<close>: the token \<^verbatim>\<open>uuid.v4()\<close> returns in this call;
  \<^item> \<open>expand\<close>: \<^verbatim>\<open>urlTemplate.parse(t).expand(params)\<close>, on the params object;
  \<^item> \<open>host_json\<close>, \<open>host_string\<close>, \<open>host_get\<close>: the JSON text, the string and the
    properties of objects that are not plain (see \<open>json_stringify\<close>, \<open>to_string\<close> and
    \<open>js_read\<close>);
  \<^item> \<open>request\<close>: \<^verbatim>\<open>request(mergedOptions)\<close> of the executor, as the fate of the promise
    it returns.
\<close>

record env =
  isBrowser :: bool
  pkg_version :: string
  uuid_v4 :: string
  expand :: "string \<Rightarrow> jsval \<Rightarrow> string"
  host_json :: "jsval \<Rightarrow> string option"
  host_string :: "jsval \<Rightarrow> string"
  host_get :: "jsval \<Rightarrow> string \<Rightarrow> jsval"
  request :: "executor \<Rightarrow> jsobj \<Rightarrow> outcome"

section \<open>Multipart assembly\<close>

definition CRLF :: string where
  "CRLF = [CHR 0x0D, CHR 0x0A]"

text \<open>Line 208: \<^verbatim>\<open>`--${boundary}\r\nContent-Type: ${part['Content-Type']}\r\n\r\n`\<close>\<close>

definition preamble :: "string \<Rightarrow> string \<Rightarrow> string" where
  "preamble boundary ctype = ''--'' @ boundary @ CRLF @ ''Content-Type: '' @ ctype @ CRLF @ CRLF"

text \<open>Line 196: \<^verbatim>\<open>`--${boundary}--`\<close>\<close>

definition finale :: "string \<Rightarrow> string" where
  "finale boundary = ''--'' @ boundary @ ''--''"

text \<open>
  Lines 207-224, the loop over the parts (content type, body). The state is what has been
  pushed on \<^verbatim>\<open>rStream\<close> so far and the chunks of the streams piped into it, which
  arrive after the loop. A string body is pushed with a CRLF after it; a stream is piped
  through the progress stream; any other body has no \<^verbatim>\<open>pipe\<close> and the call throws.
\<close>

fun multipart_loop ::
  "string \<Rightarrow> (string \<times> jsval) list \<Rightarrow> string list \<times> string list
     \<Rightarrow> js_error + (string list \<times> string list)" where
  "multipart_loop boundary [] acc = Inr acc"
| "multipart_loop boundary ((ctype, body) # parts) (pushed, piped) =
     (case body of
        Str s \<Rightarrow> multipart_loop boundary parts (pushed @ [preamble boundary ctype, s, CRLF], piped)
      | Readable cs \<Rightarrow> multipart_loop boundary parts (pushed @ [preamble boundary ctype], piped @ cs)
      | _ \<Rightarrow> Inl (TypeError ''part.body.pipe is not a function''))"

text \<open>Lines 300-309, \<^verbatim>\<open>ProgressStream\<close>: the \<^verbatim>\<open>bytesRead\<close> emitted after each chunk.\<close>

fun bytes_read :: "nat \<Rightarrow> string list \<Rightarrow> nat list" where
  "bytes_read n [] = []"
| "bytes_read n (c # cs) = (n + length c) # bytes_read (n + length c) cs"

text \<open>
  The assembled stream: the chunks a consumer reads from \<^verbatim>\<open>rStream\<close>, in order, whether
  the stream ends after them, and the \<^verbatim>\<open>bytesRead\<close> values passed to
  \<^verbatim>\<open>options.onUploadProgress\<close>.
\<close>

record assembled =
  chunks :: "string list"
  ended :: bool
  progress :: "nat list"

text \<open>\<^verbatim>\<open>isReadableStream\<close>, lines 29-31.\<close>

fun isReadableStream :: "jsval \<Rightarrow> bool" where
  "isReadableStream (Readable cs) = True"
| "isReadableStream v = False"

text \<open>
  Lines 195-228. With a string media body the closing delimiter is pushed at once and the
  stream ended (lines 225-228). With a stream, its chunks pass through, and when it ends
  \<^verbatim>\<open>flush\<close> (lines 198-202) pushes a CRLF and the closing delimiter.
\<close>

definition assemble_multipart ::
  "string \<Rightarrow> bool \<Rightarrow> (string \<times> jsval) list \<Rightarrow> js_error + assembled" where
  "assemble_multipart boundary notify multipart =
     (case multipart_loop boundary multipart ([], []) of
        Inl e \<Rightarrow> Inl e
      | Inr (pushed, piped) \<Rightarrow>
          if \<not> isReadableStream (snd (last multipart))
          then Inr \<lparr>chunks = pushed @ [finale boundary], ended = True, progress = []\<rparr>
          else Inr \<lparr>chunks = pushed @ piped @ [CRLF, finale boundary], ended = True,
                    progress = (if notify then bytes_read 0 piped else [])\<rparr>)"

section \<open>Deep merge\<close>

text \<open>
  \<^verbatim>\<open>isPlainObject\<close> of the package \<^verbatim>\<open>extend\<close>. A plain object passes. An object with a
  replaced prototype passes when the \<^verbatim>\<open>constructor\<close> it reads is its own, or falsy, or
  has a \<^verbatim>\<open>prototype\<close> with an own \<^verbatim>\<open>isPrototypeOf\<close> (as \<^verbatim>\<open>Object\<close> has), and when
  \<^verbatim>\<open>for (key in obj)\<close> ends on an own key, that is, when every inherited enumerable
  property is hidden by an own one. An object that inherits from an array, a stream, a
  function or a host object reads the constructor of that object and does not pass (the
  case where it also has a \<^verbatim>\<open>constructor\<close> of its own is not modelled).
\<close>

fun pure_chain :: "jsval \<Rightarrow> bool" where
  "pure_chain Null = True"
| "pure_chain (Obj kvs) = True"
| "pure_chain (Derived own pr) = pure_chain pr"
| "pure_chain v = False"

text \<open>The \<^verbatim>\<open>constructor\<close> read through a prototype: \<open>None\<close> is \<^verbatim>\<open>Object\<close>, found on
  \<^verbatim>\<open>Object.prototype\<close>.\<close>

fun inherited_constructor :: "jsval \<Rightarrow> jsval option" where
  "inherited_constructor (Obj kvs) = map_of kvs ''constructor''"
| "inherited_constructor (Derived own pr) =
     (case map_of own ''constructor'' of Some v \<Rightarrow> Some v | None \<Rightarrow> inherited_constructor pr)"
| "inherited_constructor v = Some Undefined"

definition constructor_passes :: "jsval option \<Rightarrow> bool" where
  "constructor_passes c =
     (case c of
        None \<Rightarrow> True
      | Some v \<Rightarrow>
          \<not> truthy v
          \<or> (truthy (get_prop v ''prototype'')
              \<and> has_key (own_entries (get_prop v ''prototype'')) ''isPrototypeOf''))"

fun extend_plain :: "jsval \<Rightarrow> bool" where
  "extend_plain (Obj kvs) = True"
| "extend_plain (Derived own pr) =
     (pure_chain pr
      \<and> (has_key own ''constructor'' \<or> constructor_passes (inherited_constructor pr))
      \<and> list_all (\<lambda>kv. has_key own (fst kv)) (enumerable_entries pr))"
| "extend_plain v = False"

text \<open>
  \<^verbatim>\<open>extend(true, target, source)\<close> of the package \<^verbatim>\<open>extend\<close>. For each property of the
  source: a value that passes \<^verbatim>\<open>isPlainObject\<close>, or an array, is merged into the target's
  value of the same kind (or into a new one), any other value except undefined replaces
  the target's, and undefined is skipped. The first argument of \<open>extend_val\<close> is the
  target's value, the second the source's.
\<close>

fun extend_val :: "jsval \<Rightarrow> jsval \<Rightarrow> jsval"
  and extend_obj :: "jsobj \<Rightarrow> (string \<times> jsval) list \<Rightarrow> jsobj"
  and extend_arr :: "jsval list \<Rightarrow> jsval list \<Rightarrow> jsval list" where
  "extend_val src (Obj ckvs) =
     (case src of
        Obj skvs \<Rightarrow> Obj (extend_obj skvs ckvs)
      | Derived sown spr \<Rightarrow>
          if extend_plain (Derived sown spr) then Derived (extend_obj sown ckvs) spr
          else Obj (extend_obj [] ckvs)
      | _ \<Rightarrow> Obj (extend_obj [] ckvs))"
| "extend_val src (Derived own pr) =
     (if extend_plain (Derived own pr)
      then (case src of
              Obj skvs \<Rightarrow> Obj (extend_obj skvs own)
            | Derived sown spr \<Rightarrow>
                if extend_plain (Derived sown spr) then Derived (extend_obj sown own) spr
                else Obj (extend_obj [] own)
            | _ \<Rightarrow> Obj (extend_obj [] own))
      else Derived own pr)"
| "extend_val src (Arr cxs) = Arr (extend_arr (case src of Arr sxs \<Rightarrow> sxs | _ \<Rightarrow> []) cxs)"
| "extend_val src Undefined = Undefined"
| "extend_val src Null = Null"
| "extend_val src (Bool b) = Bool b"
| "extend_val src (Num n) = Num n"
| "extend_val src (Str s) = Str s"
| "extend_val src (Readable cs) = Readable cs"
| "extend_val src (Host h) = Host h"
| "extend_val src (Func f) = Func f"
| "extend_obj target [] = target"
| "extend_obj target ((name, copy) # rest) =
     extend_obj
       (if copy = Undefined then target
        else js_set name (extend_val (js_get target name) copy) target) rest"
| "extend_arr target [] = target"
| "extend_arr [] (copy # rest) =
     (let r = extend_arr [] rest in
      if copy = Undefined then (if r = [] then [] else Undefined # r)
      else extend_val Undefined copy # r)"
| "extend_arr (t # ts) (copy # rest) =
     (if copy = Undefined then t else extend_val t copy) # extend_arr ts rest"

text \<open>\<^verbatim>\<open>extend(true, target, s1, s2, ...)\<close> on a target object.\<close>

definition extend_deep :: "jsobj \<Rightarrow> jsval list \<Rightarrow> jsobj" where
  "extend_deep target srcs = foldl (\<lambda>t s. extend_obj t (enumerable_entries s)) target srcs"

section \<open>Resolution, lines 71-143\<close>

text \<open>Lines 112-117: the per-call \<^verbatim>\<open>auth\<close>, else the per-client one, else the global one
  (\<^verbatim>\<open>null\<close> without a global context).\<close>

definition resolve_auth :: "APIRequestParams \<Rightarrow> jsobj \<Rightarrow> jsval" where
  "resolve_auth parameters ps =
     js_or (js_get ps ''auth'')
       (js_or (js_get (ctx_options (ctx parameters)) ''auth'')
          (case google (ctx parameters) of Some gopts \<Rightarrow> js_get gopts ''auth'' | None \<Rightarrow> Null))"

text \<open>Lines 119-120.\<close>

definition defaultMime :: "jsval \<Rightarrow> string" where
  "defaultMime media =
     (if is_string (get_prop media ''body'') then ''text/plain'' else ''application/octet-stream'')"

text \<open>The local variables after line 135; the params are their own properties
  \<open>r_params\<close> and their prototype \<open>r_proto\<close>.\<close>

record resolved =
  r_params :: jsobj
  r_proto :: "jsval option"
  r_media :: jsval
  r_resource :: jsval
  r_authClient :: jsval
  r_headers :: jsval

text \<open>The params after the body, \<^verbatim>\<open>media\<close>, \<^verbatim>\<open>auth\<close> and \<^verbatim>\<open>headers\<close> have left them
  (lines 106-126), before un-aliasing.\<close>

definition extracted_params :: "APIRequestParams \<Rightarrow> jsobj" where
  "extracted_params parameters =
     js_delete ''headers'' (js_delete ''auth'' (js_delete ''media''
       (strip_body (merged_params parameters))))"

definition resolve :: "APIRequestParams \<Rightarrow> resolved" where
  "resolve parameters =
     (let ps1 = merged_params parameters;
          media = js_or (js_get ps1 ''media'') (Obj []);
          resource = resolve_resource ps1;
          ps2 = strip_body ps1;
          authClient = resolve_auth parameters ps2;
          ps3 = js_delete ''auth'' (js_delete ''media'' ps2);
          headers = js_or (js_get ps3 ''headers'') (Obj [])
      in \<lparr>r_params = unalias (extracted_params parameters),
          r_proto = unalias_proto (extracted_params parameters), r_media = media,
          r_resource = resource, r_authClient = authClient, r_headers = headers\<rparr>)"

text \<open>The params object after line 135.\<close>

definition params_object :: "resolved \<Rightarrow> jsval" where
  "params_object r = mk_object (r_params r) (r_proto r)"

text \<open>Line 142: the message of the error thrown.\<close>

definition missing_message :: "string list \<Rightarrow> string" where
  "missing_message missing = ''Missing required parameters: '' @ join '', '' missing"

section \<open>URLs, path parameters and the API key, lines 145-179\<close>

text \<open>\<^verbatim>\<open>urlTemplate.parse(u).expand(params)\<close> under \<^verbatim>\<open>if (u)\<close>: a template that is not a
  string has no \<^verbatim>\<open>replace\<close> and the parser throws.\<close>

definition expand_template :: "env \<Rightarrow> jsval \<Rightarrow> jsval \<Rightarrow> js_error + jsval" where
  "expand_template e u ps =
     (if truthy u
      then (case u of
              Str t \<Rightarrow> Inr (Str (expand e t ps))
            | _ \<Rightarrow> Inl (TypeError ''template.replace is not a function''))
      else Inr u)"

text \<open>Lines 164-165: the path parameters leave the params.\<close>

definition strip_path_params :: "string list \<Rightarrow> jsobj \<Rightarrow> jsobj" where
  "strip_path_params names ps = foldl (\<lambda>t name. js_delete name t) ps names"

text \<open>Lines 166-172: and they leave the per-client default params, when there are any.\<close>

definition strip_context_params :: "string list \<Rightarrow> APIRequestContext \<Rightarrow> APIRequestContext" where
  "strip_context_params names c =
     (case js_get (ctx_options c) ''params'' of
        Obj kvs \<Rightarrow> c\<lparr>ctx_options := js_set ''params'' (Obj (strip_path_params names kvs)) (ctx_options c)\<rparr>
      | _ \<Rightarrow> c)"

text \<open>Lines 176-179: a string credential is an API key; it yields to a truthy
  \<^verbatim>\<open>params.key\<close>, read on the params object with the prototype \<open>pr\<close>, and is then
  dropped.\<close>

definition inject_key ::
  "(jsval \<Rightarrow> string \<Rightarrow> jsval) \<Rightarrow> jsval option \<Rightarrow> jsval \<Rightarrow> jsobj \<Rightarrow> jsobj \<times> jsval" where
  "inject_key hg pr authClient ps =
     (if is_string authClient
      then (js_set ''key'' (js_or (js_read hg (mk_object ps pr) ''key'') authClient) ps, Undefined)
      else (ps, authClient))"

section \<open>Objects the caller shares with the call\<close>

text \<open>
  \<^verbatim>\<open>Object.assign\<close> copies the properties of the params and of the options, not the
  objects they hold. Three objects of the caller are therefore written in place: the
  \<^verbatim>\<open>headers\<close> object found in the merged params (lines 206 and 232), the
  \<^verbatim>\<open>options.headers\<close> object (lines 239-258) and the \<^verbatim>\<open>options.userAgentDirectives\<close>
  array (line 244). The model writes each new value back where the caller holds the
  object; it takes the caller's objects to be distinct from one another.
\<close>

datatype source = PerCall | PerClient | Global | Fresh

text \<open>Where the \<^verbatim>\<open>headers\<close> of line 125 comes from: the highest source that has the key,
  or a new object when the merged value is falsy.\<close>

definition headers_source :: "APIRequestParams \<Rightarrow> source" where
  "headers_source parameters =
     (if \<not> truthy (js_get (merged_params parameters) ''headers'') then Fresh
      else if has_key (params parameters) ''headers'' then PerCall
      else if has_key (own_entries (js_get (ctx_options (ctx parameters)) ''params'')) ''headers''
        then PerClient
      else Global)"

definition writeback_headers :: "source \<Rightarrow> jsval \<Rightarrow> APIRequestParams \<Rightarrow> APIRequestParams" where
  "writeback_headers src h p =
     (case src of
        Fresh \<Rightarrow> p
      | PerCall \<Rightarrow> p\<lparr>params := js_set ''headers'' h (params p)\<rparr>
      | PerClient \<Rightarrow>
          (case js_get (ctx_options (ctx p)) ''params'' of
             Obj kvs \<Rightarrow>
               if has_key kvs ''headers''
               then p\<lparr>ctx := (ctx p)\<lparr>ctx_options :=
                        js_set ''params'' (Obj (js_set ''headers'' h kvs)) (ctx_options (ctx p))\<rparr>\<rparr>
               else p
           | _ \<Rightarrow> p)
      | Global \<Rightarrow>
          (case google (ctx p) of
             None \<Rightarrow> p
           | Some gopts \<Rightarrow>
               (case js_get gopts ''params'' of
                  Obj kvs \<Rightarrow>
                    p\<lparr>ctx := (ctx p)\<lparr>google :=
                        Some (js_set ''params'' (Obj (js_set ''headers'' h kvs)) gopts)\<rparr>\<rparr>
                | _ \<Rightarrow> p)))"

text \<open>\<^verbatim>\<open>v[k] = x\<close> on a value that is a plain object (the type \<^verbatim>\<open>Headers\<close>).\<close>

fun set_prop :: "string \<Rightarrow> jsval \<Rightarrow> jsval \<Rightarrow> jsval" where
  "set_prop k x (Obj kvs) = Obj (js_set k x kvs)"
| "set_prop k x v = v"

fun is_plain_object :: "jsval \<Rightarrow> bool" where
  "is_plain_object (Obj kvs) = True"
| "is_plain_object v = False"

fun is_array :: "jsval \<Rightarrow> bool" where
  "is_array (Arr xs) = True"
| "is_array v = False"

definition writeback_option :: "string \<Rightarrow> jsval \<Rightarrow> APIRequestParams \<Rightarrow> APIRequestParams" where
  "writeback_option k v p = p\<lparr>options := js_set k v (options p)\<rparr>"

section \<open>Body and media, lines 181-237\<close>

text \<open>The local variables the rest of the function works on.\<close>

record locals =
  l_options :: jsobj
  l_params :: jsobj
  l_headers :: jsval
  l_upload :: "assembled option"

text \<open>
  Lines 181-237. The result is the headers object as the branch leaves it, also when the
  multipart loop throws (line 206 has run by then), and the new locals.
\<close>

definition media_step ::
  "env \<Rightarrow> jsval \<Rightarrow> resolved \<Rightarrow> jsobj \<Rightarrow> jsobj \<Rightarrow> jsval \<times> (js_error + locals)" where
  "media_step e mediaUrl' r opts ps =
     (let media = r_media r; resource = r_resource r; headers = r_headers r in
      if truthy mediaUrl' \<and> truthy (get_prop media ''body'') then
        (let opts1 = js_set ''url'' mediaUrl' opts in
         if truthy resource then
           (let ps1 = js_set ''uploadType'' (Str ''multipart'') ps;
                multipart =
                  [(''application/json'',
                    (case json_stringify (host_json e) resource of
                       None \<Rightarrow> Undefined | Some t \<Rightarrow> Str t)),
                   (to_string (host_string e)
                      (js_or (get_prop media ''mimeType'')
                         (js_or (get_prop resource ''mimeType'') (Str (defaultMime media)))),
                    get_prop media ''body'')];
                boundary = uuid_v4 e;
                headers1 = set_prop ''Content-Type''
                             (Str (''multipart/related; boundary='' @ boundary)) headers
            in (headers1,
                case assemble_multipart boundary (truthy (js_get opts1 ''onUploadProgress'')) multipart of
                  Inl err \<Rightarrow> Inl err
                | Inr a \<Rightarrow>
                    Inr \<lparr>l_options = js_set ''data'' (Readable (chunks a)) opts1, l_params = ps1,
                         l_headers = headers1, l_upload = Some a\<rparr>))
         else
           (let headers1 = set_prop ''Content-Type''
                             (js_or (get_prop media ''mimeType'') (Str (defaultMime media))) headers
            in (headers1,
                Inr \<lparr>l_options = js_set ''data'' (get_prop media ''body'') opts1,
                     l_params = js_set ''uploadType'' (Str ''media'') ps,
                     l_headers = headers1, l_upload = None\<rparr>)))
      else
        (headers,
         Inr \<lparr>l_options = js_set ''data'' (js_or resource Undefined) opts, l_params = ps,
              l_headers = headers, l_upload = None\<rparr>))"

section \<open>Headers, lines 239-259\<close>

text \<open>Lines 244-248: the directive the client adds.\<close>

definition gzip_directive :: "env \<Rightarrow> jsval" where
  "gzip_directive e =
     Obj [(''product'', Str ''google-api-nodejs-client''),
          (''version'', Str (pkg_version e)),
          (''comment'', Str ''gzip'')]"

text \<open>Lines 250-256: the line of one directive; reading a property of undefined or null
  throws.\<close>

definition user_agent_line :: "(jsval \<Rightarrow> string) \<Rightarrow> jsval \<Rightarrow> js_error + string" where
  "user_agent_line hs d =
     (if d = Undefined \<or> d = Null then Inl (TypeError ''Cannot read property product'')
      else
        (let line = to_string hs (get_prop d ''product'') @ ''/'' @ to_string hs (get_prop d ''version'')
         in Inr (if truthy (get_prop d ''comment'')
                 then line @ '' ('' @ to_string hs (get_prop d ''comment'') @ '')''
                 else line)))"

fun user_agent_lines :: "(jsval \<Rightarrow> string) \<Rightarrow> jsval list \<Rightarrow> js_error + string list" where
  "user_agent_lines hs [] = Inr []"
| "user_agent_lines hs (d # ds) =
     (case user_agent_line hs d of
        Inl err \<Rightarrow> Inl err
      | Inr line \<Rightarrow>
          (case user_agent_lines hs ds of
             Inl err \<Rightarrow> Inl err
           | Inr ls \<Rightarrow> Inr (line # ls)))"

text \<open>
  Lines 239-259. \<^verbatim>\<open>extend\<close> merges the headers of the params into
  \<^verbatim>\<open>options.headers\<close>, the caller's object when there is one (an \<^verbatim>\<open>options.headers\<close>
  that is not a plain object is excluded by the type and counts as none), and line 240
  stores the params object, with its prototype \<open>pr\<close>. Outside a browser,
  \<^verbatim>\<open>Accept-Encoding\<close> and \<^verbatim>\<open>User-Agent\<close> are then assigned. The descriptor is returned
  with what has been written to the caller's objects up to the return or throw.
\<close>

definition header_step ::
  "env \<Rightarrow> jsval option \<Rightarrow> locals \<Rightarrow> APIRequestParams
     \<Rightarrow> APIRequestParams \<times> (js_error + jsobj)" where
  "header_step e pr l p =
     (let opts = l_options l;
          shared = is_plain_object (js_get opts ''headers'');
          wb = (\<lambda>h q. if shared then writeback_option ''headers'' (Obj h) q else q);
          h0 = extend_deep (own_entries (js_or (js_get opts ''headers'') (Obj []))) [l_headers l];
          opts1 = js_set ''params'' (mk_object (l_params l) pr) (js_set ''headers'' (Obj h0) opts)
      in if isBrowser e then (wb h0 p, Inr opts1)
         else
           (let h1 = js_set ''Accept-Encoding'' (Str ''gzip'') h0;
                given = is_array (js_get opts1 ''userAgentDirectives'');
                wd = (\<lambda>ds q. if given then writeback_option ''userAgentDirectives'' (Arr ds) q else q)
            in case js_or (js_get opts1 ''userAgentDirectives'') (Arr []) of
                 Arr xs \<Rightarrow>
                   (let ds = xs @ [gzip_directive e];
                        opts2 = (if given then js_set ''userAgentDirectives'' (Arr ds) opts1 else opts1)
                    in case user_agent_lines (host_string e) ds of
                         Inl err \<Rightarrow> (wd ds (wb h1 p), Inl err)
                       | Inr ls \<Rightarrow>
                           (let h2 = js_set ''User-Agent'' (Str (join '' '' ls)) h1
                            in (wd ds (wb h2 p), Inr (js_set ''headers'' (Obj h2) opts2))))
               | _ \<Rightarrow> (wb h1 p, Inl (TypeError ''directives.push is not a function''))))"

section \<open>Final options and dispatch, lines 261-293\<close>

text \<open>Lines 265-267, the default \<^verbatim>\<open>validateStatus\<close>; in the options it is the function
  value \<open>Func ''validateStatus''\<close>.\<close>

definition validateStatus :: "int \<Rightarrow> bool" where
  "validateStatus status = ((status \<ge> 200 \<and> status < 300) \<or> status = 304)"

text \<open>Lines 264-271.\<close>

definition default_options :: "jsobj \<Rightarrow> jsobj" where
  "default_options opts =
     (let opts1 = (if \<not> truthy (js_get opts ''validateStatus'')
                   then js_set ''validateStatus'' (Func ''validateStatus'') opts else opts)
      in js_set ''retry''
           (if js_get opts1 ''retry'' = Undefined then Bool True else js_get opts1 ''retry'') opts1)"

text \<open>Lines 276-283.\<close>

definition merge_options :: "APIRequestContext \<Rightarrow> jsobj \<Rightarrow> jsobj" where
  "merge_options c opts =
     js_delete ''auth''
       (extend_deep []
          [(case google c of Some gopts \<Rightarrow> Obj gopts | None \<Rightarrow> Obj []),
           Obj (ctx_options c),
           Obj opts])"

text \<open>Lines 289-293.\<close>

definition choose_executor :: "jsval \<Rightarrow> executor" where
  "choose_executor authClient =
     (if truthy authClient \<and> typeof_object authClient then AuthClient authClient
      else DefaultTransporter)"

section \<open>The request, lines 70-294\<close>

text \<open>What the function has built when it reaches the dispatch: the executor, the local
  \<^verbatim>\<open>options\<close> (whose \<^verbatim>\<open>params\<close> are the resolved params), \<^verbatim>\<open>mergedOptions\<close>, and the
  multipart stream when there is one.\<close>

record built =
  b_executor :: executor
  b_options :: jsobj
  b_merged :: jsobj
  b_upload :: "assembled option"

text \<open>
  Lines 137-160: the check of the required params, then the local \<^verbatim>\<open>options\<close> with the
  expanded \<^verbatim>\<open>url\<close> and the serializer, and the expanded \<^verbatim>\<open>mediaUrl\<close>. The copy of line 72
  is taken here, where it is first used. A throw leaves the descriptor as it was.
\<close>

definition prepare :: "env \<Rightarrow> APIRequestParams \<Rightarrow> js_error + (jsobj \<times> jsval)" where
  "prepare e parameters =
     (let r = resolve parameters;
          options0 = object_assign [] [Obj (options parameters)]
      in case getMissingParams (host_get e) (params_object r) (requiredParams parameters) of
           Some missing \<Rightarrow> Inl (Error (missing_message missing))
         | None \<Rightarrow>
             (case expand_template e (js_get options0 ''url'') (params_object r) of
                Inl err \<Rightarrow> Inl err
              | Inr url' \<Rightarrow>
                  (case expand_template e (mediaUrl parameters) (params_object r) of
                     Inl err \<Rightarrow> Inl err
                   | Inr mediaUrl' \<Rightarrow>
                       Inr (js_set ''paramsSerializer'' (Func ''paramsSerializer'')
                              (if truthy (js_get options0 ''url'')
                               then js_set ''url'' url' options0 else options0),
                            mediaUrl'))))"

text \<open>The descriptor after line 150 has assigned \<^verbatim>\<open>parameters.mediaUrl\<close> and lines 164-173
  have stripped the per-client default params.\<close>

definition stripped :: "APIRequestParams \<Rightarrow> jsval \<Rightarrow> APIRequestParams" where
  "stripped parameters mediaUrl' =
     parameters\<lparr>mediaUrl := mediaUrl',
                ctx := strip_context_params (pathParams parameters) (ctx parameters)\<rparr>"

text \<open>The own properties of the params, and the credential, after line 179.\<close>

definition keyed :: "env \<Rightarrow> APIRequestParams \<Rightarrow> jsobj \<times> jsval" where
  "keyed e parameters =
     inject_key (host_get e) (r_proto (resolve parameters)) (r_authClient (resolve parameters))
       (strip_path_params (pathParams parameters) (r_params (resolve parameters)))"

text \<open>The descriptor after the media branch, lines 181-237: the \<^verbatim>\<open>headers\<close> object of the
  params is the caller's, and has the \<^verbatim>\<open>Content-Type\<close> the branch assigned.\<close>

definition after_media :: "env \<Rightarrow> APIRequestParams \<Rightarrow> jsobj \<Rightarrow> jsval \<Rightarrow> APIRequestParams" where
  "after_media e parameters options2 mediaUrl' =
     (let headers1 =
            fst (media_step e mediaUrl' (resolve parameters) options2 (fst (keyed e parameters)))
      in if headers1 = r_headers (resolve parameters) then stripped parameters mediaUrl'
         else writeback_headers (headers_source parameters) headers1 (stripped parameters mediaUrl'))"

text \<open>
  Everything before the dispatch. The second component is the caller's descriptor as the
  function leaves it, whether it throws or not.
\<close>

definition build_request :: "env \<Rightarrow> APIRequestParams \<Rightarrow> (js_error + built) \<times> APIRequestParams" where
  "build_request e parameters =
     (case prepare e parameters of
        Inl err \<Rightarrow> (Inl err, parameters)
      | Inr (options2, mediaUrl') \<Rightarrow>
          (case snd (media_step e mediaUrl' (resolve parameters) options2
                      (fst (keyed e parameters))) of
             Inl err \<Rightarrow> (Inl err, after_media e parameters options2 mediaUrl')
           | Inr l \<Rightarrow>
               (case header_step e (r_proto (resolve parameters)) l
                       (after_media e parameters options2 mediaUrl') of
                  (p4, Inl err) \<Rightarrow> (Inl err, p4)
                | (p4, Inr opts) \<Rightarrow>
                    (Inr \<lparr>b_executor = choose_executor (snd (keyed e parameters)),
                          b_options = default_options opts,
                          b_merged = merge_options (ctx p4) (default_options opts),
                          b_upload = l_upload l\<rparr>, p4))))"

text \<open>\<^verbatim>\<open>createAPIRequestAsync\<close>: the fate of the promise it returns, and the descriptor
  afterwards. A throw inside the async function rejects the promise; otherwise the
  promise follows the one the executor returns.\<close>

definition createAPIRequestAsync :: "env \<Rightarrow> APIRequestParams \<Rightarrow> outcome \<times> APIRequestParams" where
  "createAPIRequestAsync e parameters =
     (case build_request e parameters of
        (Inl err, p') \<Rightarrow> (Rejected err, p')
      | (Inr b, p') \<Rightarrow> (request e (b_executor b) (b_merged b), p'))"

text \<open>
  \<^verbatim>\<open>promise.then(onFulfilled, onRejected)\<close>, as the calls the two reactions make: the first
  runs if the promise is fulfilled, the second if it is rejected, and neither if it never
  settles.
\<close>

definition promise_then :: "outcome \<Rightarrow> (jsval \<Rightarrow> 'c list) \<Rightarrow> (js_error \<Rightarrow> 'c list) \<Rightarrow> 'c list" where
  "promise_then pr onFulfilled onRejected =
     (case pr of
        Fulfilled r \<Rightarrow> onFulfilled r
      | Rejected err \<Rightarrow> onRejected err
      | Pending \<Rightarrow> [])"

text \<open>
  Lines 59-68, \<^verbatim>\<open>createAPIRequest\<close>. With a callback it returns undefined, having
  registered \<^verbatim>\<open>r => callback(null, r)\<close> and \<^verbatim>\<open>callback\<close> on the promise; without one it
  returns the promise. A call of the callback is the list of its arguments.
\<close>

datatype arg = ArgVal jsval | ArgErr js_error

datatype returned = RetUndefined | RetPromise outcome

record api_call =
  result :: returned
  callback_calls :: "arg list list"
  descriptor :: APIRequestParams

definition createAPIRequest :: "env \<Rightarrow> APIRequestParams \<Rightarrow> bool \<Rightarrow> api_call" where
  "createAPIRequest e parameters callback =
     (let started = createAPIRequestAsync e parameters in
      if callback
      then \<lparr>result = RetUndefined,
            callback_calls =
              promise_then (fst started)
                (\<lambda>r. [[ArgVal Null, ArgVal r]]) (\<lambda>err. [[ArgErr err]]),
            descriptor = snd started\<rparr>
      else \<lparr>result = RetPromise (fst started), callback_calls = [], descriptor = snd started\<rparr>)"


section \<open>Sample requests, and notions the statements use\<close>

definition sample_env :: env where
  "sample_env = \<lparr>isBrowser = False, pkg_version = ''1.0.0'', uuid_v4 = ''B'',
     expand = (\<lambda>t ps. t), host_json = (\<lambda>v. None), host_string = (\<lambda>v. ''[object Object]''),
     host_get = (\<lambda>v k. Undefined),
     request = (\<lambda>ex mo. Fulfilled (Obj [(''status'', Num 200)]))\<rparr>"


definition both_bodies :: jsobj where
  "both_bodies = [(''requestBody'', Obj [(''title'', Str ''t'')]), (''resource'', Str ''r'')]"

definition needs_id :: APIRequestParams where
  "needs_id = \<lparr>options = [(''url'', Str ''https://example.test/{id}'')],
     params = [(''q'', Str ''x'')],
     requiredParams = [''id''], pathParams = [''id''],
     ctx = \<lparr>google = None, ctx_options = []\<rparr>,
     mediaUrl = Undefined\<rparr>"

definition chained_alias :: jsobj where
  "chained_alias = [(''resource__'', Num 2), (''resource_'', Num 1)]"

definition aliased_resource :: jsobj where
  "aliased_resource = [(''resource'', Str ''old''), (''resource_'', Str ''new''), (''q'', Str ''x'')]"

text \<open>The JSON text of \<^verbatim>\<open>{title: "t"}\<close>.\<close>

definition title_json :: string where
  \<open>title_json = ''{"title":"t"}''\<close>

text \<open>An upload of the string \<^verbatim>\<open>hello\<close> with the metadata \<^verbatim>\<open>{title: "t"}\<close> and no
  MIME type.\<close>

definition upload_hello :: APIRequestParams where
  "upload_hello = \<lparr>options = [(''url'', Str ''https://example.test/files'')],
     params = [(''requestBody'', Obj [(''title'', Str ''t'')]), (''media'', Obj [(''body'', Str ''hello'')])],
     requiredParams = [], pathParams = [],
     ctx = \<lparr>google = None, ctx_options = []\<rparr>,
     mediaUrl = Str ''https://example.test/upload/files''\<rparr>"

text \<open>The same upload with the MIME type \<^verbatim>\<open>application/octet-stream\<close> given for the
  media.\<close>

definition upload_octet :: APIRequestParams where
  "upload_octet = \<lparr>options = [(''url'', Str ''https://example.test/files'')],
     params = [(''requestBody'', Obj [(''title'', Str ''t'')]),
               (''media'', Obj [(''mimeType'', Str ''application/octet-stream''),
                                (''body'', Str ''hello'')])],
     requiredParams = [], pathParams = [],
     ctx = \<lparr>google = None, ctx_options = []\<rparr>,
     mediaUrl = Str ''https://example.test/upload/files''\<rparr>"

text \<open>The content C3 states, for the boundary \<open>b\<close>.\<close>

definition claimed_content :: "string \<Rightarrow> string" where
  "claimed_content b = ''--'' @ b @ CRLF @ ''Content-Type: application/json'' @ CRLF @ CRLF @ title_json @ CRLF
     @ ''--'' @ b @ CRLF @ ''Content-Type: application/octet-stream'' @ CRLF @ CRLF @ ''hello'' @ CRLF @ ''--'' @ b @ ''--''"

text \<open>The concatenated content of the multipart stream a request was built with.\<close>

definition upload_content :: "(js_error + built) \<times> APIRequestParams \<Rightarrow> string option" where
  "upload_content res =
     (case fst res of
        Inl err \<Rightarrow> None
      | Inr b \<Rightarrow> map_option (\<lambda>a. concat (chunks a)) (b_upload b))"

text \<open>The resolved params: \<^verbatim>\<open>options.params\<close> as line 240 assigns them.\<close>

definition resolved_params :: "built \<Rightarrow> jsobj" where
  "resolved_params b = own_entries (js_get (b_options b) ''params'')"

text \<open>A call with an empty \<^verbatim>\<open>key\<close> parameter and an API key as the client's credential.\<close>

definition falsy_key :: APIRequestParams where
  "falsy_key = \<lparr>options = [(''url'', Str ''https://example.test/items'')],
     params = [(''key'', Str '''')],
     requiredParams = [], pathParams = [],
     ctx = \<lparr>google = None, ctx_options = [(''auth'', Str ''APIKEY'')]\<rparr>,
     mediaUrl = Undefined\<rparr>"

text \<open>A call with its own \<^verbatim>\<open>key\<close> parameter and an API key as the client's credential.\<close>

definition own_key :: APIRequestParams where
  "own_key = \<lparr>options = [(''url'', Str ''https://example.test/items'')],
     params = [(''key'', Str ''mine'')],
     requiredParams = [], pathParams = [],
     ctx = \<lparr>google = None, ctx_options = [(''auth'', Str ''APIKEY'')]\<rparr>,
     mediaUrl = Undefined\<rparr>"

text \<open>A key that ends in the alias marker, the test of line 130.\<close>

definition marked :: "string \<Rightarrow> bool" where
  "marked key = (key \<noteq> [] \<and> last key = CHR ''_'')"

text \<open>A call whose required parameter \<^verbatim>\<open>id\<close> is a path parameter, with a query
  parameter and an aliased one.\<close>

definition id_in_path :: APIRequestParams where
  "id_in_path = \<lparr>options = [(''url'', Str ''https://example.test/items/{id}'')],
     params = [(''id'', Str ''42''), (''q'', Str ''x''), (''fields_'', Str ''name'')],
     requiredParams = [''id'', ''q''], pathParams = [''id''],
     ctx = \<lparr>google = None, ctx_options = []\<rparr>,
     mediaUrl = Undefined\<rparr>"














text \<open>An environment whose expander fills a trailing \<^verbatim>\<open>{id}\<close> of the template.\<close>

definition id_env :: env where
  "id_env = sample_env\<lparr>expand := (\<lambda>t ps. takeWhile (\<lambda>c. c \<noteq> CHR ''{'') t
                                    @ to_string (\<lambda>v. []) (get_prop ps ''id''))\<rparr>"



text \<open>A call whose only parameter is \<^verbatim>\<open>__proto___\<close>, an object with an \<^verbatim>\<open>id\<close>: un-aliasing
  makes that object the prototype of the params, and \<^verbatim>\<open>id\<close> is read through it.\<close>

definition inherited_id :: APIRequestParams where
  "inherited_id = \<lparr>options = [(''url'', Str ''https://example.test/items/{id}'')],
     params = [(''__proto___'', Obj [(''id'', Str ''42'')])],
     requiredParams = [''id''], pathParams = [''id''],
     ctx = \<lparr>google = None, ctx_options = []\<rparr>,
     mediaUrl = Undefined\<rparr>"

text \<open>An environment whose executor returns a promise that never settles, and one whose
  executor rejects.\<close>

definition hanging_env :: env where
  "hanging_env = sample_env\<lparr>request := (\<lambda>ex mo. Pending)\<rparr>"

definition failing_env :: env where
  "failing_env = sample_env\<lparr>request := (\<lambda>ex mo. Rejected (Rejection (Str ''503'')))\<rparr>"

text \<open>A call whose required parameter \<^verbatim>\<open>q\<close> and whose \<^verbatim>\<open>key\<close> are found only on the
  prototype that un-aliasing installs, with an API key as the client's credential.\<close>

definition inherited_q :: APIRequestParams where
  "inherited_q = \<lparr>options = [(''url'', Str ''https://example.test/items'')],
     params = [(''__proto___'', Obj [(''q'', Str ''x''), (''key'', Str ''theirs'')])],
     requiredParams = [''q''], pathParams = [],
     ctx = \<lparr>google = None, ctx_options = [(''auth'', Str ''APIKEY'')]\<rparr>,
     mediaUrl = Undefined\<rparr>"


section \<open>Facts about objects\<close>

lemma map_of_js_set: "map_of (js_set k v ob) = (map_of ob)(k \<mapsto> v)"
  by (simp add: js_set_def update_conv')

lemma map_of_js_delete: "map_of (js_delete k ob) = (map_of ob)(k := None)"
  by (simp add: js_delete_def delete_conv')

lemma js_get_js_set: "js_get (js_set k v ob) k' = (if k' = k then v else js_get ob k')"
  by (simp add: js_get_def map_of_js_set)


lemma has_key_js_set: "has_key (js_set k v ob) k' = (k' = k \<or> has_key ob k')"
  by (simp add: has_key_def map_of_js_set)

lemma has_key_js_delete: "has_key (js_delete k ob) k' = (k' \<noteq> k \<and> has_key ob k')"
  by (simp add: has_key_def map_of_js_delete)





text \<open>
  C2, as stated, at \<^verbatim>\<open>{requestBody: {title: "t"}, resource: "r"}\<close>: the body is the
  \<^verbatim>\<open>requestBody\<close>, and \<^verbatim>\<open>resource\<close> is still in the params afterwards.
\<close>

theorem body_resolution_counterexample:
  "js_get both_bodies ''requestBody'' = Obj [(''title'', Str ''t'')]
   \<and> js_get both_bodies ''resource'' = Str ''r''
   \<and> resolve_resource both_bodies = Obj [(''title'', Str ''t'')]
   \<and> has_key (strip_body both_bodies) ''resource''"
  by (simp add: both_bodies_def js_get_def resolve_resource_def strip_body_def has_key_def
      js_delete_def)

text \<open>
  C2, amended. When \<^verbatim>\<open>requestBody\<close> is truthy it is the body and leaves the params, and
  \<^verbatim>\<open>resource\<close> stays in the params as it was: line 107 deletes \<^verbatim>\<open>resource\<close> only when
  it served as the body.
\<close>

theorem body_resolution:
  assumes "truthy (js_get ps ''requestBody'')"
  shows "resolve_resource ps = js_get ps ''requestBody''
    \<and> \<not> has_key (strip_body ps) ''requestBody''
    \<and> map_of (strip_body ps) ''resource'' = map_of ps ''resource''"
  using assms
  by (simp add: resolve_resource_def strip_body_def has_key_js_delete map_of_js_delete)

theorem body_resolution_witness:
  "truthy (js_get both_bodies ''requestBody'')
   \<and> resolve_resource both_bodies = Obj [(''title'', Str ''t'')]
   \<and> \<not> has_key (strip_body both_bodies) ''requestBody''
   \<and> map_of (strip_body both_bodies) ''resource'' = Some (Str ''r'')"
proof -
  have t: "truthy (js_get both_bodies ''requestBody'')"
    by (simp add: both_bodies_def js_get_def)
  show ?thesis
    using t body_resolution [OF t] by (simp add: both_bodies_def js_get_def)
qed


section \<open>Un-aliasing\<close>

lemma unalias_key_unmarked: "key = [] \<or> last key \<noteq> CHR ''_'' \<Longrightarrow> unalias_key st key = st"
  by (auto simp: unalias_key_def Let_def)

lemma unalias_key_marked:
  "k \<noteq> ''__proto__'' \<Longrightarrow>
   fst (unalias_key st (k @ ''_'')) = js_delete (k @ ''_'') (js_set k (js_get (fst st) (k @ ''_'')) (fst st))"
  by (simp add: unalias_key_def Let_def)

lemma marked_butlast: "key \<noteq> [] \<Longrightarrow> last key = CHR ''_'' \<Longrightarrow> key = butlast key @ ''_''"
  by (metis append_butlast_last_id)

lemma unalias_key_other:
  assumes "x \<noteq> key" and "x @ ''_'' \<noteq> key"
  shows "map_of (fst (unalias_key st key)) x = map_of (fst st) x"
proof (cases "key \<noteq> [] \<and> last key = CHR ''_''")
  case True
  then have "key = butlast key @ ''_''" by (simp add: marked_butlast)
  with assms have "x \<noteq> butlast key" by auto
  with assms True show ?thesis
    by (simp add: unalias_key_def Let_def map_of_js_delete map_of_js_set)
next
  case False
  then show ?thesis by (auto simp: unalias_key_def Let_def)
qed

lemma foldl_unalias_untouched:
  assumes "x \<in> set keys \<longrightarrow> x = [] \<or> last x \<noteq> CHR ''_''" and "x @ ''_'' \<notin> set keys"
  shows "map_of (fst (foldl unalias_key st keys)) x = map_of (fst st) x"
  using assms
proof (induction keys arbitrary: st)
  case Nil
  then show ?case by simp
next
  case (Cons key keys)
  have step: "map_of (fst (unalias_key st key)) x = map_of (fst st) x"
  proof (cases "x = key")
    case True
    with Cons.prems have "key = [] \<or> last key \<noteq> CHR ''_''" by simp
    then show ?thesis by (simp add: unalias_key_unmarked)
  next
    case False
    moreover from Cons.prems have "x @ ''_'' \<noteq> key" by auto
    ultimately show ?thesis by (rule unalias_key_other)
  qed
  from Cons.prems have "x \<in> set keys \<longrightarrow> x = [] \<or> last x \<noteq> CHR ''_''" "x @ ''_'' \<notin> set keys"
    by auto
  then have "map_of (fst (foldl unalias_key (unalias_key st key) keys)) x
      = map_of (fst (unalias_key st key)) x"
    by (rule Cons.IH)
  with step show ?case by simp
qed

text \<open>
  C7, as stated, at \<^verbatim>\<open>{resource__: 2, resource_: 1}\<close> (no \<^verbatim>\<open>resource\<close>): the first round
  overwrites \<^verbatim>\<open>resource_\<close> with 2, the second moves that to \<^verbatim>\<open>resource\<close>. The value 1 of
  \<^verbatim>\<open>resource_\<close> is lost, and \<^verbatim>\<open>resource__\<close> has not become \<^verbatim>\<open>resource_\<close>.
\<close>

theorem unalias_counterexample:
  "js_get chained_alias ''resource_'' = Num 1
   \<and> \<not> has_key chained_alias ''resource''
   \<and> js_get (unalias chained_alias) ''resource'' = Num 2
   \<and> \<not> has_key (unalias chained_alias) ''resource_''"
  by (simp add: chained_alias_def unalias_def unalias_loop_def unalias_key_def object_keys_def
      js_get_def js_set_def js_delete_def has_key_def)

text \<open>
  C7, amended. For a key \<^verbatim>\<open>k_\<close> of the params whose base name \<^verbatim>\<open>k\<close> does not itself end
  in the marker, and with no key \<^verbatim>\<open>k__\<close> beside it, un-aliasing leaves \<^verbatim>\<open>k\<close> with the
  value of \<^verbatim>\<open>k_\<close>, whatever \<^verbatim>\<open>k\<close> held before, and no key \<^verbatim>\<open>k_\<close>.
\<close>

theorem unalias_renames:
  assumes "wf_obj ps" and "has_key ps (k @ ''_'')"
    and "k = [] \<or> last k \<noteq> CHR ''_''" and "\<not> has_key ps (k @ ''__'')"
  shows "js_get (unalias ps) k = js_get ps (k @ ''_'')
    \<and> has_key (unalias ps) k
    \<and> \<not> has_key (unalias ps) (k @ ''_'')"
proof -
  let ?a = "k @ ''_''"
  let ?keys = "map fst ps"
  from assms(3) have np: "k \<noteq> ''__proto__''" by auto
  from assms(2) have "?a \<in> set ?keys"
    by (auto simp: has_key_def map_of_eq_None_iff)
  then obtain pre post where split: "?keys = pre @ ?a # post"
    by (auto dest: split_list)
  from assms(1) split have fresh: "?a \<notin> set pre" "?a \<notin> set post"
    by (auto simp: wf_obj_def)
  from assms(4) have "?a @ ''_'' \<notin> set ?keys"
    by (auto simp: has_key_def map_of_eq_None_iff)
  with split have nodouble: "?a @ ''_'' \<notin> set pre" "?a @ ''_'' \<notin> set post"
    by auto
  let ?st1 = "foldl unalias_key (ps, None) pre"
  let ?st2 = "unalias_key ?st1 ?a"
  have u: "unalias ps = fst (foldl unalias_key ?st2 post)"
    by (simp add: unalias_def unalias_loop_def object_keys_def split)
  have v1: "map_of (fst ?st1) ?a = map_of (fst (ps, None :: jsval option)) ?a"
    using fresh(1) nodouble(1) by (intro foldl_unalias_untouched) auto
  then have g1: "js_get (fst ?st1) ?a = js_get ps ?a"
    by (simp add: js_get_def)
  have k2: "map_of (fst ?st2) k = Some (js_get ps ?a)"
    by (simp add: unalias_key_marked [OF np] map_of_js_delete map_of_js_set g1)
  have a2: "map_of (fst ?st2) ?a = None"
    by (simp add: unalias_key_marked [OF np] map_of_js_delete)
  have "map_of (unalias ps) k = map_of (fst ?st2) k"
    unfolding u using assms(3) fresh(2) by (intro foldl_unalias_untouched) auto
  moreover have "map_of (unalias ps) ?a = map_of (fst ?st2) ?a"
    unfolding u using fresh(2) nodouble(2) by (intro foldl_unalias_untouched) auto
  ultimately show ?thesis
    using k2 a2 by (simp add: js_get_def has_key_def)
qed

theorem unalias_renames_witness:
  "wf_obj aliased_resource \<and> has_key aliased_resource (''resource'' @ ''_'')
   \<and> (''resource'' = [] \<or> last ''resource'' \<noteq> CHR ''_'')
   \<and> \<not> has_key aliased_resource (''resource'' @ ''__'')
   \<and> js_get (unalias aliased_resource) ''resource'' = Str ''new''
   \<and> has_key (unalias aliased_resource) ''resource''
   \<and> \<not> has_key (unalias aliased_resource) ''resource_''"
proof -
  have h: "wf_obj aliased_resource" "has_key aliased_resource (''resource'' @ ''_'')"
    "''resource'' = [] \<or> last ''resource'' \<noteq> CHR ''_''"
    "\<not> has_key aliased_resource (''resource'' @ ''__'')"
    by (simp_all add: aliased_resource_def wf_obj_def has_key_def)
  show ?thesis
    using h unalias_renames [OF h] by (simp add: aliased_resource_def js_get_def)
qed

section \<open>The required parameters\<close>

lemma r_params_resolve: "r_params (resolve p) = unalias (extracted_params p)"
  by (simp add: resolve_def Let_def)



text \<open>A required name found on the prototype that un-aliasing installed is not missing:
  the call is dispatched, with the \<^verbatim>\<open>id\<close> of the prototype in the URL.\<close>

lemma inherited_id_dispatches:
  "params_object (resolve inherited_id) = Derived [] (Obj [(''id'', Str ''42'')])
   \<and> getMissingParams (host_get id_env) (params_object (resolve inherited_id))
        (requiredParams inherited_id) = None
   \<and> fst (createAPIRequestAsync id_env inherited_id) = Fulfilled (Obj [(''status'', Num 200)])
   \<and> map_option (\<lambda>b. js_get (b_merged b) ''url'')
        (case fst (build_request id_env inherited_id) of Inl err \<Rightarrow> None | Inr b \<Rightarrow> Some b)
       = Some (Str ''https://example.test/items/42'')"
  by code_simp



section \<open>The two calling conventions\<close>

text \<open>
  C10, as stated, at a call whose executor returns a promise that never settles: the
  request is built and dispatched, undefined is returned, and the callback is never
  called.
\<close>

theorem callback_counterexample:
  "result (createAPIRequest hanging_env own_key True) = RetUndefined
   \<and> callback_calls (createAPIRequest hanging_env own_key True) = []
   \<and> result (createAPIRequest hanging_env own_key False) = RetPromise Pending"
  by code_simp

text \<open>
  C10, amended. With a callback, \<^verbatim>\<open>createAPIRequest\<close> returns undefined; without one it
  returns the promise and calls nothing. When building the request throws, the callback
  is called once with that error, and the promise is rejected with it. When the request
  is built, the executor chosen is called on the merged options: if its promise is
  fulfilled the callback is called once with null and the response, if it is rejected,
  once with the error, and while it is pending, not at all; the promise returned without
  a callback has the same fate. Both conventions leave the same descriptor.
\<close>

theorem createAPIRequest_conventions:
  "result (createAPIRequest e p True) = RetUndefined
   \<and> result (createAPIRequest e p False) = RetPromise (fst (createAPIRequestAsync e p))
   \<and> callback_calls (createAPIRequest e p False) = []
   \<and> descriptor (createAPIRequest e p True) = snd (build_request e p)
   \<and> descriptor (createAPIRequest e p False) = snd (build_request e p)
   \<and> (\<forall>err. fst (build_request e p) = Inl err \<longrightarrow>
         callback_calls (createAPIRequest e p True) = [[ArgErr err]]
         \<and> result (createAPIRequest e p False) = RetPromise (Rejected err))
   \<and> (\<forall>b. fst (build_request e p) = Inr b \<longrightarrow>
         (\<forall>r. request e (b_executor b) (b_merged b) = Fulfilled r \<longrightarrow>
            callback_calls (createAPIRequest e p True) = [[ArgVal Null, ArgVal r]]
            \<and> result (createAPIRequest e p False) = RetPromise (Fulfilled r))
         \<and> (\<forall>err. request e (b_executor b) (b_merged b) = Rejected err \<longrightarrow>
            callback_calls (createAPIRequest e p True) = [[ArgErr err]]
            \<and> result (createAPIRequest e p False) = RetPromise (Rejected err))
         \<and> (request e (b_executor b) (b_merged b) = Pending \<longrightarrow>
            callback_calls (createAPIRequest e p True) = []
            \<and> result (createAPIRequest e p False) = RetPromise Pending))"
proof -
  obtain res p' where b: "build_request e p = (res, p')"
    by (cases "build_request e p")
  show ?thesis
  proof (cases res)
    case (Inl err)
    with b show ?thesis
      by (simp add: createAPIRequest_def createAPIRequestAsync_def promise_then_def)
  next
    case (Inr bt)
    with b show ?thesis
      by (simp add: createAPIRequest_def createAPIRequestAsync_def promise_then_def)
  qed
qed

theorem createAPIRequest_conventions_witness:
  "callback_calls (createAPIRequest sample_env own_key True)
     = [[ArgVal Null, ArgVal (Obj [(''status'', Num 200)])]]
   \<and> result (createAPIRequest failing_env own_key False)
     = RetPromise (Rejected (Rejection (Str ''503'')))
   \<and> callback_calls (createAPIRequest failing_env own_key True)
     = [[ArgErr (Rejection (Str ''503''))]]
   \<and> callback_calls (createAPIRequest sample_env needs_id True)
     = [[ArgErr (Error ''Missing required parameters: id'')]]"
proof -
  have s: "fst (build_request sample_env own_key)
      = Inr (projr (fst (build_request sample_env own_key)))"
    by code_simp
  have f: "fst (build_request failing_env own_key)
      = Inr (projr (fst (build_request failing_env own_key)))"
    by code_simp
  have n: "fst (build_request sample_env needs_id)
      = Inl (Error ''Missing required parameters: id'')"
    by code_simp
  have rs: "request sample_env ex mo = Fulfilled (Obj [(''status'', Num 200)])" for ex mo
    by (simp add: sample_env_def)
  have rf: "request failing_env ex mo = Rejected (Rejection (Str ''503''))" for ex mo
    by (simp add: failing_env_def sample_env_def)
  from createAPIRequest_conventions [of sample_env own_key] s rs
  have a: "callback_calls (createAPIRequest sample_env own_key True)
     = [[ArgVal Null, ArgVal (Obj [(''status'', Num 200)])]]"
    by blast
  from createAPIRequest_conventions [of failing_env own_key] f rf
  have c: "result (createAPIRequest failing_env own_key False)
       = RetPromise (Rejected (Rejection (Str ''503'')))"
      "callback_calls (createAPIRequest failing_env own_key True)
       = [[ArgErr (Rejection (Str ''503''))]]"
    by blast+
  from createAPIRequest_conventions [of sample_env needs_id] n
  have d: "callback_calls (createAPIRequest sample_env needs_id True)
     = [[ArgErr (Error ''Missing required parameters: id'')]]"
    by blast
  from a c d show ?thesis by (intro conjI)
qed

section \<open>The multipart stream\<close>

text \<open>Without a MIME type on the media or the metadata, the media part of a string body
  is announced as \<^verbatim>\<open>text/plain\<close>, the default of lines 119-120 for a string.\<close>

lemma string_body_default_type:
  "upload_content (build_request sample_env upload_hello) =
     Some (''--B'' @ CRLF @ ''Content-Type: application/json'' @ CRLF @ CRLF @ title_json @ CRLF
           @ ''--B'' @ CRLF @ ''Content-Type: text/plain'' @ CRLF @ CRLF @ ''hello'' @ CRLF
           @ ''--B--'')"
  by code_simp

text \<open>
  C3. In a multipart upload with a string media body, a body payload whose JSON text is
  \<open>metadata\<close> and a media part whose content type comes out as \<open>ctype\<close> (from
  \<^verbatim>\<open>media.mimeType\<close>, else the \<^verbatim>\<open>mimeType\<close> of the body payload, else the default), the
  assembled stream is the preamble of the metadata part, the metadata, a CRLF, the
  preamble of the media part, the media body, a CRLF and the closing delimiter, and then
  ends. In particular, for the body \<^verbatim>\<open>hello\<close>, the metadata \<^verbatim>\<open>{"title":"t"}\<close> and the type
  \<^verbatim>\<open>application/octet-stream\<close> the concatenated content is the one stated, for every
  boundary.
\<close>

theorem multipart_string_media:
  assumes "truthy mediaUrl'"
    and "get_prop (r_media r) ''body'' = Str body" and "body \<noteq> []"
    and "truthy (r_resource r)"
    and "json_stringify (host_json e) (r_resource r) = Some metadata"
    and "to_string (host_string e)
           (js_or (get_prop (r_media r) ''mimeType'')
              (js_or (get_prop (r_resource r) ''mimeType'') (Str (defaultMime (r_media r)))))
         = ctype"
  shows "(case snd (media_step e mediaUrl' r opts ps) of Inl err \<Rightarrow> None | Inr l \<Rightarrow> l_upload l) =
     Some \<lparr>chunks =
              [''--'' @ uuid_v4 e @ CRLF @ ''Content-Type: application/json'' @ CRLF @ CRLF,
               metadata,
               CRLF,
               ''--'' @ uuid_v4 e @ CRLF @ ''Content-Type: '' @ ctype @ CRLF @ CRLF,
               body,
               CRLF,
               ''--'' @ uuid_v4 e @ ''--''],
            ended = True, progress = []\<rparr>
    \<and> (metadata = title_json \<and> body = ''hello'' \<and> ctype = ''application/octet-stream'' \<longrightarrow>
         (case snd (media_step e mediaUrl' r opts ps) of
            Inl err \<Rightarrow> None
          | Inr l \<Rightarrow> map_option (\<lambda>a. (concat (chunks a), ended a)) (l_upload l))
         = Some (claimed_content (uuid_v4 e), True))"
proof -
  have a: "(case snd (media_step e mediaUrl' r opts ps) of Inl err \<Rightarrow> None | Inr l \<Rightarrow> l_upload l) =
     Some \<lparr>chunks =
              [''--'' @ uuid_v4 e @ CRLF @ ''Content-Type: application/json'' @ CRLF @ CRLF,
               metadata,
               CRLF,
               ''--'' @ uuid_v4 e @ CRLF @ ''Content-Type: '' @ ctype @ CRLF @ CRLF,
               body,
               CRLF,
               ''--'' @ uuid_v4 e @ ''--''],
            ended = True, progress = []\<rparr>"
    using assms
    by (simp add: media_step_def Let_def assemble_multipart_def preamble_def finale_def)
  then have "(case snd (media_step e mediaUrl' r opts ps) of
            Inl err \<Rightarrow> None
          | Inr l \<Rightarrow> map_option (\<lambda>a. (concat (chunks a), ended a)) (l_upload l))
         = Some (claimed_content (uuid_v4 e), True)"
    if "metadata = title_json \<and> body = ''hello'' \<and> ctype = ''application/octet-stream''"
    using that by (auto simp: claimed_content_def split: sum.splits)
  with a show ?thesis by blast
qed

theorem multipart_string_media_witness:
  "truthy (Str ''https://example.test/upload/files'')
   \<and> get_prop (r_media (resolve upload_octet)) ''body'' = Str ''hello'' \<and> ''hello'' \<noteq> []
   \<and> truthy (r_resource (resolve upload_octet))
   \<and> json_stringify (host_json sample_env) (r_resource (resolve upload_octet)) = Some title_json
   \<and> to_string (host_string sample_env)
        (js_or (get_prop (r_media (resolve upload_octet)) ''mimeType'')
           (js_or (get_prop (r_resource (resolve upload_octet)) ''mimeType'')
              (Str (defaultMime (r_media (resolve upload_octet))))))
      = ''application/octet-stream''
   \<and> (case snd (media_step sample_env (Str ''https://example.test/upload/files'')
                  (resolve upload_octet) [] []) of
         Inl err \<Rightarrow> None
       | Inr l \<Rightarrow> map_option (\<lambda>a. (concat (chunks a), ended a)) (l_upload l)) =
       Some (claimed_content ''B'', True)
   \<and> upload_content (build_request sample_env upload_octet) = Some (claimed_content ''B'')"
proof -
  have h: "truthy (Str ''https://example.test/upload/files'')"
    "get_prop (r_media (resolve upload_octet)) ''body'' = Str ''hello''" "''hello'' \<noteq> []"
    "truthy (r_resource (resolve upload_octet))"
    "json_stringify (host_json sample_env) (r_resource (resolve upload_octet)) = Some title_json"
    "to_string (host_string sample_env)
        (js_or (get_prop (r_media (resolve upload_octet)) ''mimeType'')
           (js_or (get_prop (r_resource (resolve upload_octet)) ''mimeType'')
              (Str (defaultMime (r_media (resolve upload_octet))))))
      = ''application/octet-stream''"
    by code_simp+
  have u: "uuid_v4 sample_env = ''B''" by (simp add: sample_env_def)
  have w: "upload_content (build_request sample_env upload_octet) = Some (claimed_content ''B'')"
    by code_simp
  from multipart_string_media [OF h, of "[]" "[]"] have
    "(case snd (media_step sample_env (Str ''https://example.test/upload/files'')
                  (resolve upload_octet) [] []) of
         Inl err \<Rightarrow> None
       | Inr l \<Rightarrow> map_option (\<lambda>a. (concat (chunks a), ended a)) (l_upload l)) =
       Some (claimed_content ''B'', True)"
    unfolding u by simp
  with h w show ?thesis by (intro conjI)
qed

section \<open>The request that is built\<close>

lemma build_request_success:
  assumes "build_request e p = (Inr b, p')"
  shows "\<exists>options2 mediaUrl' l opts.
      prepare e p = Inr (options2, mediaUrl')
    \<and> snd (media_step e mediaUrl' (resolve p) options2 (fst (keyed e p))) = Inr l
    \<and> header_step e (r_proto (resolve p)) l (after_media e p options2 mediaUrl') = (p', Inr opts)
    \<and> b = \<lparr>b_executor = choose_executor (snd (keyed e p)),
            b_options = default_options opts,
            b_merged = merge_options (ctx p') (default_options opts),
            b_upload = l_upload l\<rparr>"
  using assms unfolding build_request_def
  by (auto split: sum.splits prod.splits)

lemma prepare_success:
  assumes "prepare e p = Inr (options2, mediaUrl')"
  shows "getMissingParams (host_get e) (params_object (resolve p)) (requiredParams p) = None
    \<and> expand_template e (mediaUrl p) (params_object (resolve p)) = Inr mediaUrl'"
  using assms unfolding prepare_def Let_def
  by (auto split: option.splits sum.splits)

lemma media_step_params:
  assumes "snd (media_step e m r opts ps) = Inr l"
  shows "l_params l = ps \<or> (\<exists>v. l_params l = js_set ''uploadType'' (Str v) ps)"
  using assms unfolding media_step_def Let_def
  by (auto split: if_splits sum.splits)

lemma header_step_params:
  assumes "header_step e pr l q = (q', Inr opts)"
  shows "js_get opts ''params'' = mk_object (l_params l) pr"
  using assms unfolding header_step_def Let_def
  by (auto simp: js_get_js_set split: if_splits jsval.splits sum.splits)

lemma js_get_default_options:
  "k \<noteq> ''validateStatus'' \<Longrightarrow> k \<noteq> ''retry'' \<Longrightarrow> js_get (default_options opts) k = js_get opts k"
  by (simp add: default_options_def Let_def js_get_js_set)

lemma own_entries_mk_object: "own_entries (mk_object own pr) = own"
  by (simp add: mk_object_def split: option.splits)

lemma options_params_success:
  assumes "build_request e p = (Inr b, p')"
  shows "js_get (b_options b) ''params'' = mk_object (resolved_params b) (r_proto (resolve p))"
proof -
  from build_request_success [OF assms] obtain options2 mediaUrl' l opts where
    h: "header_step e (r_proto (resolve p)) l (after_media e p options2 mediaUrl') = (p', Inr opts)"
    and b: "b_options b = default_options opts"
    by auto
  have "js_get (b_options b) ''params'' = mk_object (l_params l) (r_proto (resolve p))"
    by (simp add: b js_get_default_options header_step_params [OF h])
  then show ?thesis
    by (simp add: resolved_params_def own_entries_mk_object)
qed

lemma resolved_params_success:
  assumes "build_request e p = (Inr b, p')"
  shows "resolved_params b = fst (keyed e p)
     \<or> (\<exists>v. resolved_params b = js_set ''uploadType'' (Str v) (fst (keyed e p)))"
proof -
  from build_request_success [OF assms] obtain options2 mediaUrl' l opts where
    m: "snd (media_step e mediaUrl' (resolve p) options2 (fst (keyed e p))) = Inr l"
    and h: "header_step e (r_proto (resolve p)) l (after_media e p options2 mediaUrl') = (p', Inr opts)"
    and b: "b_options b = default_options opts"
    by auto
  have "resolved_params b = l_params l"
    by (simp add: resolved_params_def b js_get_default_options header_step_params [OF h]
        own_entries_mk_object)
  then show ?thesis
    using media_step_params [OF m] by simp
qed

lemma js_get_resolved_params:
  assumes "build_request e p = (Inr b, p')" and "k \<noteq> ''uploadType''"
  shows "js_get (resolved_params b) k = js_get (fst (keyed e p)) k"
  using resolved_params_success [OF assms(1)] assms(2)
  by (elim disjE exE) (simp_all add: js_get_js_set)

section \<open>The API key\<close>

text \<open>On params whose prototype is still \<^verbatim>\<open>Object.prototype\<close>, \<^verbatim>\<open>params.key\<close> is the own
  property.\<close>

lemma js_read_key_plain: "js_read hg (mk_object ps None) ''key'' = js_get ps ''key''"
  by (simp add: mk_object_def js_get_def object_prototype_names_def split: option.splits)

text \<open>
  C8, as stated, at the params \<^verbatim>\<open>{key: ""}\<close> with the credential \<^verbatim>\<open>"APIKEY"\<close>: a \<^verbatim>\<open>key\<close>
  entry is present, and the credential is injected over it.
\<close>

theorem api_key_counterexample:
  "has_key (params falsy_key) ''key''
   \<and> r_authClient (resolve falsy_key) = Str ''APIKEY''
   \<and> (case fst (build_request sample_env falsy_key) of
         Inl err \<Rightarrow> None
       | Inr b \<Rightarrow> Some (js_get (resolved_params b) ''key'')) = Some (Str ''APIKEY'')"
  by code_simp

text \<open>
  C8, amended. When the resolved credential is a string and the request is built, the
  resolved params hold under \<^verbatim>\<open>key\<close> the value \<^verbatim>\<open>params.key\<close> had after the path
  parameters were stripped if that value is truthy, and the credential otherwise (line
  177 is \<^verbatim>\<open>params.key || authClient\<close>); the request goes to the default transporter.
  \<^verbatim>\<open>params.key\<close> is the own property of the params, or, when they have none and
  un-aliasing has replaced their prototype, what that prototype gives.
\<close>

theorem api_key_injection:
  assumes "r_authClient (resolve p) = Str s" and "build_request e p = (Inr b, p')"
  shows "js_get (resolved_params b) ''key'' =
       (if truthy (js_read (host_get e)
                     (mk_object (strip_path_params (pathParams p) (r_params (resolve p)))
                        (r_proto (resolve p))) ''key'')
        then js_read (host_get e)
               (mk_object (strip_path_params (pathParams p) (r_params (resolve p)))
                  (r_proto (resolve p))) ''key''
        else Str s)
    \<and> (r_proto (resolve p) = None \<longrightarrow>
        js_get (resolved_params b) ''key'' =
          (if truthy (js_get (strip_path_params (pathParams p) (r_params (resolve p))) ''key'')
           then js_get (strip_path_params (pathParams p) (r_params (resolve p))) ''key''
           else Str s))
    \<and> b_executor b = DefaultTransporter
    \<and> fst (createAPIRequestAsync e p) = request e DefaultTransporter (b_merged b)"
proof -
  let ?ps = "strip_path_params (pathParams p) (r_params (resolve p))"
  let ?read = "js_read (host_get e) (mk_object ?ps (r_proto (resolve p))) ''key''"
  have k: "keyed e p = (js_set ''key'' (js_or ?read (Str s)) ?ps, Undefined)"
    by (simp add: keyed_def inject_key_def assms(1))
  from build_request_success [OF assms(2)] have ex: "b_executor b = DefaultTransporter"
    by (auto simp: k choose_executor_def)
  have "js_get (resolved_params b) ''key'' = js_get (fst (keyed e p)) ''key''"
    by (rule js_get_resolved_params [OF assms(2)]) simp
  then have g: "js_get (resolved_params b) ''key'' = js_or ?read (Str s)"
    by (simp add: k js_get_js_set)
  have plain: "?read = js_get ?ps ''key''" if "r_proto (resolve p) = None"
    using that by (simp add: js_read_key_plain)
  from g plain ex show ?thesis
    by (simp add: js_or_def createAPIRequestAsync_def assms(2))
qed

theorem api_key_injection_witness:
  "r_authClient (resolve own_key) = Str ''APIKEY''
   \<and> build_request sample_env own_key =
       (Inr (projr (fst (build_request sample_env own_key))), snd (build_request sample_env own_key))
   \<and> r_proto (resolve own_key) = None
   \<and> js_get (resolved_params (projr (fst (build_request sample_env own_key)))) ''key'' = Str ''mine''
   \<and> b_executor (projr (fst (build_request sample_env own_key))) = DefaultTransporter"
proof -
  have h: "r_authClient (resolve own_key) = Str ''APIKEY''"
    "build_request sample_env own_key =
       (Inr (projr (fst (build_request sample_env own_key))), snd (build_request sample_env own_key))"
    by code_simp+
  have n: "r_proto (resolve own_key) = None"
    by code_simp
  have v: "js_get (strip_path_params (pathParams own_key) (r_params (resolve own_key))) ''key'' = Str ''mine''"
    by code_simp
  note t = api_key_injection [OF h]
  from t have "r_proto (resolve own_key) = None \<longrightarrow>
      js_get (resolved_params (projr (fst (build_request sample_env own_key)))) ''key'' =
        (if truthy (js_get (strip_path_params (pathParams own_key) (r_params (resolve own_key))) ''key'')
         then js_get (strip_path_params (pathParams own_key) (r_params (resolve own_key))) ''key''
         else Str ''APIKEY'')"
    by (elim conjE)
  with n have a: "js_get (resolved_params (projr (fst (build_request sample_env own_key)))) ''key''
      = Str ''mine''"
    by (simp add: v)
  from t have b: "b_executor (projr (fst (build_request sample_env own_key))) = DefaultTransporter"
    by (elim conjE)
  from h n a b show ?thesis by (intro conjI)
qed

section \<open>The resolved params\<close>

lemma has_key_strip_path_params:
  "has_key (strip_path_params names ps) k = (has_key ps k \<and> k \<notin> set names)"
  unfolding strip_path_params_def
  by (induction names arbitrary: ps) (auto simp: has_key_js_delete)

lemma map_of_strip_path_params:
  "map_of (strip_path_params names ps) k = (if k \<in> set names then None else map_of ps k)"
  unfolding strip_path_params_def
  by (induction names arbitrary: ps) (auto simp: map_of_js_delete)

lemma js_read_mk_object:
  "js_read hg (mk_object own pr) name =
     (case map_of own name of Some v \<Rightarrow> v | None \<Rightarrow> js_read hg (mk_object [] pr) name)"
  by (cases pr) (simp_all add: mk_object_def split: option.splits)

lemma js_read_plain_own:
  assumes "js_read hg (mk_object own None) name \<noteq> Undefined"
    and "name \<notin> set object_prototype_names"
  shows "has_key own name \<and> js_get own name \<noteq> Undefined"
  using assms
  by (auto simp: mk_object_def has_key_def js_get_def split: option.splits)

lemma has_key_unalias_key:
  "has_key (fst (unalias_key st key)) x \<Longrightarrow>
     has_key (fst st) x \<and> x \<noteq> key \<or> \<not> marked key \<and> has_key (fst st) x
     \<or> marked key \<and> x = butlast key"
  by (auto simp: unalias_key_def Let_def marked_def has_key_js_delete has_key_js_set
      split: if_splits)

lemma foldl_unalias_no_marked:
  assumes "\<forall>x. has_key (fst st) x \<and> marked x \<longrightarrow> x \<in> set rest"
    and "\<forall>x \<in> set rest. marked x \<longrightarrow> \<not> marked (butlast x)"
  shows "has_key (fst (foldl unalias_key st rest)) x \<Longrightarrow> \<not> marked x"
  using assms
proof (induction rest arbitrary: st)
  case Nil
  then show ?case by auto
next
  case (Cons key rest)
  have inv: "\<forall>y. has_key (fst (unalias_key st key)) y \<and> marked y \<longrightarrow> y \<in> set rest"
  proof (intro allI impI)
    fix y assume y: "has_key (fst (unalias_key st key)) y \<and> marked y"
    from has_key_unalias_key [of st key y] y Cons.prems(2,3)
    show "y \<in> set rest" by auto
  qed
  from Cons.prems(3) have "\<forall>x \<in> set rest. marked x \<longrightarrow> \<not> marked (butlast x)" by simp
  with Cons.IH [OF _ inv] Cons.prems(1) show ?case by simp
qed

lemma unalias_no_marked:
  assumes "\<forall>k. has_key ps k \<longrightarrow> \<not> (marked k \<and> marked (butlast k))"
    and "has_key (unalias ps) x"
  shows "\<not> marked x"
proof -
  have k: "\<And>y. y \<in> set (map fst ps) \<Longrightarrow> has_key ps y"
    by (auto simp: has_key_def map_of_eq_None_iff)
  have keys: "\<forall>y. has_key (fst (ps, None :: jsval option)) y \<and> marked y \<longrightarrow> y \<in> set (object_keys ps)"
    by (auto simp: has_key_def map_of_eq_None_iff object_keys_def)
  have nod: "\<forall>y \<in> set (object_keys ps). marked y \<longrightarrow> \<not> marked (butlast y)"
    using assms(1) k by (auto simp: object_keys_def)
  from assms(2) show ?thesis
    unfolding unalias_def unalias_loop_def by (rule foldl_unalias_no_marked [OF keys nod])
qed

lemma getMissingParams_None:
  "getMissingParams hg ps required = None \<Longrightarrow> name \<in> set required
     \<Longrightarrow> js_read hg ps name \<noteq> Undefined"
  by (auto simp: getMissingParams_def Let_def filter_empty_conv split: if_splits)

lemma has_key_keyed:
  "has_key (fst (keyed e p)) k \<Longrightarrow>
     k = ''key'' \<or> (has_key (r_params (resolve p)) k \<and> k \<notin> set (pathParams p))"
  by (auto simp: keyed_def inject_key_def has_key_js_set has_key_strip_path_params split: if_splits)

lemma js_or_defined: "w \<noteq> Undefined \<Longrightarrow> js_or v w \<noteq> Undefined"
  by (cases v) (auto simp: js_or_def)

lemma js_read_keyed_defined:
  assumes "js_read (host_get e) (params_object (resolve p)) k \<noteq> Undefined"
    and "k \<notin> set (pathParams p)"
  shows "js_read (host_get e) (mk_object (fst (keyed e p)) (r_proto (resolve p))) k \<noteq> Undefined"
proof (cases "is_string (r_authClient (resolve p)) \<and> k = ''key''")
  case True
  then obtain s where s: "r_authClient (resolve p) = Str s"
    by (cases "r_authClient (resolve p)") auto
  have "Str s \<noteq> Undefined" by simp
  then show ?thesis
    using True
    by (simp add: keyed_def inject_key_def s js_read_mk_object map_of_js_set js_or_defined)
next
  case False
  then have "map_of (fst (keyed e p)) k = map_of (r_params (resolve p)) k"
    using assms(2)
    by (auto simp: keyed_def inject_key_def map_of_js_set map_of_strip_path_params)
  with assms(1) show ?thesis
    by (simp add: params_object_def js_read_mk_object)
qed

lemma has_key_resolved_params:
  assumes "build_request e p = (Inr b, p')" and "has_key (resolved_params b) k"
  shows "k = ''uploadType'' \<or> k = ''key''
     \<or> (has_key (r_params (resolve p)) k \<and> k \<notin> set (pathParams p))"
  using resolved_params_success [OF assms(1)] assms(2) has_key_keyed [of e p k]
  by (auto simp: has_key_js_set)

lemma js_read_resolved_params_defined:
  assumes "build_request e p = (Inr b, p')"
    and "js_read (host_get e) (params_object (resolve p)) k \<noteq> Undefined"
    and "k \<notin> set (pathParams p)"
  shows "js_read (host_get e) (js_get (b_options b) ''params'') k \<noteq> Undefined"
  using resolved_params_success [OF assms(1)] js_read_keyed_defined [OF assms(2,3)]
  by (auto simp: options_params_success [OF assms(1)] js_read_mk_object map_of_js_set
      split: if_splits)

text \<open>With the required name \<^verbatim>\<open>q\<close> on the prototype that un-aliasing installed, the
  request is built; its params have no property of their own named \<^verbatim>\<open>q\<close>, which reads
  through the prototype, and the inherited \<^verbatim>\<open>key\<close> keeps the credential out.\<close>

lemma inherited_required_read:
  "(case fst (build_request sample_env inherited_q) of
      Inl err \<Rightarrow> None
    | Inr b \<Rightarrow> Some (js_get (b_options b) ''params'', b_executor b))
   = Some (Derived [(''key'', Str ''theirs'')] (Obj [(''q'', Str ''x''), (''key'', Str ''theirs'')]),
           DefaultTransporter)"
  by code_simp

text \<open>
  C6, as stated, at \<^verbatim>\<open>requiredParams = ["id", "q"]\<close>, \<^verbatim>\<open>pathParams = ["id"]\<close> and the
  params \<^verbatim>\<open>{id: "42", q: "x", fields_: "name"}\<close>: the request is built, and the required
  name \<^verbatim>\<open>id\<close> is not in the resolved params, because it is a path parameter.
\<close>

theorem resolved_params_counterexample:
  "''id'' \<in> set (requiredParams id_in_path)
   \<and> (case fst (build_request sample_env id_in_path) of
         Inl err \<Rightarrow> None
       | Inr b \<Rightarrow> Some (has_key (resolved_params b) ''id'')) = Some False"
  by code_simp

text \<open>
  C6, amended. When the request is built, the resolved params (the object of line 240)
  satisfy:
  \<^item> if no key of the params after extraction ends in the doubled marker, no key of their
    own ends in the marker;
  \<^item> no key of their own is a declared path parameter, except \<^verbatim>\<open>key\<close> and \<^verbatim>\<open>uploadType\<close>,
    which lines 177, 186 and 231 assign after the path parameters were stripped;
  \<^item> every required name that is not a path parameter reads on them as a value other
    than undefined; it is a property of their own with such a value unless it is
    inherited, from \<^verbatim>\<open>Object.prototype\<close> or from a prototype that un-aliasing installed.
\<close>

theorem resolved_params_invariants:
  assumes "build_request e p = (Inr b, p')"
  shows "((\<forall>k. has_key (extracted_params p) k \<longrightarrow> \<not> (marked k \<and> marked (butlast k)))
            \<longrightarrow> (\<forall>k. has_key (resolved_params b) k \<longrightarrow> \<not> marked k))
    \<and> (\<forall>k. has_key (resolved_params b) k \<longrightarrow> k \<in> set (pathParams p)
            \<longrightarrow> k = ''key'' \<or> k = ''uploadType'')
    \<and> (\<forall>name \<in> set (requiredParams p). name \<notin> set (pathParams p)
            \<longrightarrow> js_read (host_get e) (js_get (b_options b) ''params'') name \<noteq> Undefined
              \<and> (r_proto (resolve p) = None \<longrightarrow> name \<notin> set object_prototype_names
                    \<longrightarrow> has_key (resolved_params b) name
                      \<and> js_get (resolved_params b) name \<noteq> Undefined))"
proof (intro conjI)
  show "(\<forall>k. has_key (extracted_params p) k \<longrightarrow> \<not> (marked k \<and> marked (butlast k)))
          \<longrightarrow> (\<forall>k. has_key (resolved_params b) k \<longrightarrow> \<not> marked k)"
  proof (intro impI allI)
    fix k
    assume nod: "\<forall>k. has_key (extracted_params p) k \<longrightarrow> \<not> (marked k \<and> marked (butlast k))"
      and k: "has_key (resolved_params b) k"
    from has_key_resolved_params [OF assms k]
    show "\<not> marked k"
    proof (elim disjE conjE)
      assume "has_key (r_params (resolve p)) k"
      then have "has_key (unalias (extracted_params p)) k" by (simp add: r_params_resolve)
      with nod show ?thesis by (rule unalias_no_marked)
    qed (simp_all add: marked_def)
  qed
  show "\<forall>k. has_key (resolved_params b) k \<longrightarrow> k \<in> set (pathParams p)
          \<longrightarrow> k = ''key'' \<or> k = ''uploadType''"
    using has_key_resolved_params [OF assms] by blast
  show "\<forall>name \<in> set (requiredParams p). name \<notin> set (pathParams p)
          \<longrightarrow> js_read (host_get e) (js_get (b_options b) ''params'') name \<noteq> Undefined
            \<and> (r_proto (resolve p) = None \<longrightarrow> name \<notin> set object_prototype_names
                  \<longrightarrow> has_key (resolved_params b) name
                    \<and> js_get (resolved_params b) name \<noteq> Undefined)"
  proof (intro ballI impI)
    fix name
    assume n: "name \<in> set (requiredParams p)" "name \<notin> set (pathParams p)"
    from build_request_success [OF assms] obtain options2 mediaUrl' where
      "prepare e p = Inr (options2, mediaUrl')" by blast
    then have "getMissingParams (host_get e) (params_object (resolve p)) (requiredParams p) = None"
      by (simp add: prepare_success)
    then have "js_read (host_get e) (params_object (resolve p)) name \<noteq> Undefined"
      using n(1) by (rule getMissingParams_None)
    then have d: "js_read (host_get e) (js_get (b_options b) ''params'') name \<noteq> Undefined"
      using n(2) by (rule js_read_resolved_params_defined [OF assms])
    have "has_key (resolved_params b) name \<and> js_get (resolved_params b) name \<noteq> Undefined"
      if "r_proto (resolve p) = None" and "name \<notin> set object_prototype_names"
    proof (rule js_read_plain_own [OF _ that(2)])
      from d show "js_read (host_get e) (mk_object (resolved_params b) None) name \<noteq> Undefined"
        by (simp add: options_params_success [OF assms] that(1))
    qed
    with d show "js_read (host_get e) (js_get (b_options b) ''params'') name \<noteq> Undefined
        \<and> (r_proto (resolve p) = None \<longrightarrow> name \<notin> set object_prototype_names
              \<longrightarrow> has_key (resolved_params b) name
                \<and> js_get (resolved_params b) name \<noteq> Undefined)"
      by blast
  qed
qed

theorem resolved_params_invariants_witness:
  "build_request sample_env id_in_path =
       (Inr (projr (fst (build_request sample_env id_in_path))),
        snd (build_request sample_env id_in_path))
   \<and> has_key (extracted_params id_in_path) ''fields_''
   \<and> \<not> has_key (resolved_params (projr (fst (build_request sample_env id_in_path)))) ''fields_''
   \<and> ''id'' \<in> set (pathParams id_in_path)
   \<and> \<not> has_key (resolved_params (projr (fst (build_request sample_env id_in_path)))) ''id''
   \<and> ''q'' \<in> set (requiredParams id_in_path) \<and> ''q'' \<notin> set (pathParams id_in_path)
   \<and> r_proto (resolve id_in_path) = None
   \<and> has_key (resolved_params (projr (fst (build_request sample_env id_in_path)))) ''q''
   \<and> js_get (resolved_params (projr (fst (build_request sample_env id_in_path)))) ''q'' \<noteq> Undefined"
proof -
  let ?b = "projr (fst (build_request sample_env id_in_path))"
  have h: "build_request sample_env id_in_path =
       (Inr ?b, snd (build_request sample_env id_in_path))"
    by code_simp
  have x: "extracted_params id_in_path =
      [(''id'', Str ''42''), (''q'', Str ''x''), (''fields_'', Str ''name'')]"
    by code_simp
  have nod: "\<forall>k. has_key (extracted_params id_in_path) k \<longrightarrow> \<not> (marked k \<and> marked (butlast k))"
    unfolding x by (simp add: has_key_def marked_def)
  have f: "has_key (extracted_params id_in_path) ''fields_''"
    unfolding x by (simp add: has_key_def)
  have mem: "''id'' \<in> set (pathParams id_in_path)" "''q'' \<in> set (requiredParams id_in_path)"
    "''q'' \<notin> set (pathParams id_in_path)"
    by (simp_all add: id_in_path_def)
  have pl: "r_proto (resolve id_in_path) = None"
    by code_simp
  note t = resolved_params_invariants [OF h]
  from t nod have "\<forall>k. has_key (resolved_params ?b) k \<longrightarrow> \<not> marked k"
    by blast
  then have a: "\<not> has_key (resolved_params ?b) ''fields_''"
    by (auto simp: marked_def)
  from t mem(1) have b: "\<not> has_key (resolved_params ?b) ''id''"
    by auto
  have np: "''q'' \<notin> set object_prototype_names"
    by (simp add: object_prototype_names_def)
  from t mem(2,3) np pl have c: "has_key (resolved_params ?b) ''q''
     \<and> js_get (resolved_params ?b) ''q'' \<noteq> Undefined"
    by blast
  from h f a mem(1) b mem(2,3) pl c show ?thesis
    by (intro conjI) (erule conjunct1 conjunct2 | assumption)+
qed

section \<open>The headers\<close>































section \<open>The descriptor after the call\<close>




































end
